theory Spec2Isabelle
  imports Main
begin

section \<open>Common types\<close>

text \<open>
  Timestamps are JavaScript \<open>Date\<close> values, read as milliseconds since the epoch.
  Every handler runs against one reading \<open>now\<close> of the clock.
\<close>

type_synonym timestamp = int

text \<open>
  A handler answers with \<open>res.status(n).json({success: true, data, ...})\<close> or with
  \<open>res.status(n).json({success: false, error: {code, ...}, ...})\<close>.
\<close>

datatype 'a response = Success nat 'a | Failure nat string

fun success_shaped :: "'a response \<Rightarrow> bool" where
  "success_shaped (Success n d) = True"
| "success_shaped (Failure n c) = False"

text \<open>JavaScript truthiness of an optional string: \<open>undefined\<close> and \<open>""\<close> are falsy.\<close>

fun truthy :: "string option \<Rightarrow> bool" where
  "truthy None = False"
| "truthy (Some s) = (s \<noteq> [])"

text \<open>\<open>x || null\<close> on an optional string.\<close>

definition or_null :: "string option \<Rightarrow> string option" where
  "or_null x = (if truthy x then x else None)"

text \<open>\<open>x ? f(x) : d\<close> on an optional string; \<open>x || d\<close> is \<open>x ? x : d\<close>.\<close>

fun when_truthy :: "string option \<Rightarrow> (string \<Rightarrow> 'a) \<Rightarrow> 'a \<Rightarrow> 'a" where
  "when_truthy None f d = d"
| "when_truthy (Some v) f d = (if v = [] then d else f v)"

text \<open>\<open>const [row] = rows\<close>, then \<open>row || undefined\<close>.\<close>

fun first_row :: "'a list \<Rightarrow> 'a option" where
  "first_row [] = None"
| "first_row (x # xs) = Some x"

section \<open>Schema (shared/schema.ts)\<close>

record user =
  u_id :: string
  u_email :: string
  u_password :: string
  u_fullName :: string
  u_role :: string
  u_phoneNumber :: "string option"
  u_facilityName :: "string option"
  u_district :: "string option"
  u_isActive :: bool
  u_lastLoginAt :: "timestamp option"
  u_createdAt :: timestamp
  u_updatedAt :: timestamp

record patient =
  p_id :: string
  p_patientCode :: string
  p_age :: "int option"
  p_gender :: "string option"
  p_district :: "string option"
  p_facilityName :: "string option"
  p_createdById :: string
  p_createdAt :: timestamp
  p_updatedAt :: timestamp

record diagnostic =
  d_id :: string
  d_patientId :: string
  d_submittedById :: string
  d_imageUrl :: string
  d_result :: string
  d_parasiteCount :: "int option"
  d_aiConfidenceScore :: "int option"
  d_reviewStatus :: string
  d_reviewedById :: "string option"
  d_reviewedAt :: "timestamp option"
  d_reviewNotes :: "string option"
  d_symptoms :: "string option"
  d_testDate :: timestamp
  d_createdAt :: timestamp

record notification =
  n_id :: string
  n_userId :: "string option"
  n_diagnosticId :: "string option"
  n_type :: string
  n_recipient :: string
  n_subject :: "string option"
  n_message :: string
  n_status :: string
  n_priority :: string
  n_sentAt :: "timestamp option"
  n_errorMessage :: "string option"
  n_retryCount :: int
  n_createdAt :: timestamp

record passwordResetToken =
  t_id :: string
  t_userId :: string
  t_token :: string
  t_expiresAt :: timestamp
  t_usedAt :: "timestamp option"
  t_createdAt :: timestamp

text \<open>
  The database: one list of rows per table. A \<open>select ... where\<close> keeps the rows
  that match, an \<open>update ... where\<close> rewrites every row that matches, an
  \<open>insert\<close> appends a row with the column defaults filled in. A statement that
  breaks a foreign key (\<open>references(() => users.id)\<close> and the like) or leaves the
  range of an \<open>integer\<close> column raises an error and changes nothing: the storage
  function then has no result (\<open>None\<close>) and the handler's \<open>catch\<close> answers.
  The values of \<open>gen_random_uuid()\<close> and \<open>nanoid\<close> are random: that they are new
  to the table is taken for granted, so the primary keys and the unique token need
  no check; the unique email of \<open>users\<close> is looked up by the register route before
  it inserts.
\<close>

record db =
  users :: "user list"
  patients :: "patient list"
  diagnostics :: "diagnostic list"
  notifications :: "notification list"
  passwordResetTokens :: "passwordResetToken list"

definition user_exists :: "string \<Rightarrow> db \<Rightarrow> bool" where
  "user_exists i s = (i \<in> set (map u_id (users s)))"

definition patient_exists :: "string \<Rightarrow> db \<Rightarrow> bool" where
  "patient_exists i s = (i \<in> set (map p_id (patients s)))"

definition diagnostic_exists :: "string \<Rightarrow> db \<Rightarrow> bool" where
  "diagnostic_exists i s = (i \<in> set (map d_id (diagnostics s)))"

text \<open>A nullable column with a foreign key: \<open>null\<close> refers to nothing.\<close>

fun fk_nullable :: "(string \<Rightarrow> db \<Rightarrow> bool) \<Rightarrow> string option \<Rightarrow> db \<Rightarrow> bool" where
  "fk_nullable ex None s = True"
| "fk_nullable ex (Some i) s = ex i s"

text \<open>The range of a Postgres \<open>integer\<close> column.\<close>

definition INT4_MIN :: int where
  "INT4_MIN = - 2147483648"

definition INT4_MAX :: int where
  "INT4_MAX = 2147483647"

section \<open>Environment of a request\<close>

text \<open>The payload that \<open>generateToken\<close> signs and \<open>verifyToken\<close> gives back.\<close>

record claims =
  c_id :: string
  c_email :: string
  c_role :: string

text \<open>
  What a handler reads from outside the repository: the process's clock
  (\<open>now\<close>, what \<open>new Date()\<close> reads) and its time zone (\<open>LocalTZA t isUTC\<close>, the
  offset of local time from UTC in ms, as ECMAScript names it), the database's clock
  (\<open>db_now\<close>, what \<open>defaultNow()\<close> reads) and its \<open>gen_random_uuid()\<close>, the
  process environment, and the libraries jsonwebtoken, bcrypt and nanoid.
  \<open>jwt_sign payload secret expiresIn now\<close> is \<open>jwt.sign\<close>;
  \<open>jwt_verify token secret now\<close> is \<open>jwt.verify\<close>, with \<open>None\<close> where it throws.
  \<open>zod_email\<close> is the check of zod's \<open>z.string().email()\<close>; \<open>JSON_parse\<close> and
  \<open>uploadImageToS3\<close> are \<open>None\<close> where they throw.
  A request makes at most one insert, so one \<open>gen_random_uuid\<close> is enough.
\<close>

datatype jsnumber = NaN | Num int

record env =
  now :: timestamp
  LocalTZA :: "timestamp \<Rightarrow> bool \<Rightarrow> int"
  db_now :: timestamp
  JWT_SECRET :: string
  NODE_ENV :: "string option"
  TWILIO_ACCOUNT_SID :: "string option"
  TWILIO_AUTH_TOKEN :: "string option"
  TWILIO_PHONE_NUMBER :: "string option"
  SENDGRID_API_KEY :: "string option"
  AWS_ACCESS_KEY_ID :: "string option"
  AWS_SECRET_ACCESS_KEY :: "string option"
  jwt_sign :: "claims \<Rightarrow> string \<Rightarrow> string \<Rightarrow> timestamp \<Rightarrow> string"
  jwt_verify :: "string \<Rightarrow> string \<Rightarrow> timestamp \<Rightarrow> claims option"
  bcrypt_hash :: "string \<Rightarrow> nat \<Rightarrow> string"
  bcrypt_compare :: "string \<Rightarrow> string \<Rightarrow> bool"
  gen_random_uuid :: string
  nanoid :: "nat \<Rightarrow> string"
  zod_email :: "string \<Rightarrow> bool"
  parseInt :: "string \<Rightarrow> jsnumber"
  JSON_parse :: "string \<Rightarrow> string option"
  toISOString :: "timestamp \<Rightarrow> string"
  uploadImageToS3 :: "string \<Rightarrow> string \<Rightarrow> string option"

section \<open>JavaScript dates in local time\<close>

text \<open>
  \<open>Date.prototype.getHours\<close> and \<open>setHours\<close> as ECMAScript defines them, on time
  values in ms. \<open>setHours\<close> keeps the minutes, seconds and ms of the local time,
  goes back to UTC with the offset of the new local time, and clips: \<open>None\<close> is an
  Invalid Date.
\<close>

definition msPerDay :: int where
  "msPerDay = 86400000"

definition msPerHour :: int where
  "msPerHour = 3600000"

definition msPerMinute :: int where
  "msPerMinute = 60000"

definition msPerSecond :: int where
  "msPerSecond = 1000"

definition Day :: "int \<Rightarrow> int" where
  "Day t = t div msPerDay"

definition HourFromTime :: "int \<Rightarrow> int" where
  "HourFromTime t = (t div msPerHour) mod 24"

definition MinFromTime :: "int \<Rightarrow> int" where
  "MinFromTime t = (t div msPerMinute) mod 60"

definition SecFromTime :: "int \<Rightarrow> int" where
  "SecFromTime t = (t div msPerSecond) mod 60"

definition msFromTime :: "int \<Rightarrow> int" where
  "msFromTime t = t mod msPerSecond"

definition MakeTime :: "int \<Rightarrow> int \<Rightarrow> int \<Rightarrow> int \<Rightarrow> int" where
  "MakeTime hour minute sec ms = hour * msPerHour + minute * msPerMinute + sec * msPerSecond + ms"

definition MakeDate :: "int \<Rightarrow> int \<Rightarrow> int" where
  "MakeDate day time = day * msPerDay + time"

definition TimeClip :: "int \<Rightarrow> timestamp option" where
  "TimeClip t = (if 8640000000000000 < \<bar>t\<bar> then None else Some t)"

definition LocalTime :: "env \<Rightarrow> timestamp \<Rightarrow> int" where
  "LocalTime e t = t + LocalTZA e t True"

definition UTC :: "env \<Rightarrow> int \<Rightarrow> int" where
  "UTC e t = t - LocalTZA e t False"

definition getHours :: "env \<Rightarrow> timestamp \<Rightarrow> int" where
  "getHours e t = HourFromTime (LocalTime e t)"

definition setHours :: "env \<Rightarrow> timestamp \<Rightarrow> int \<Rightarrow> timestamp option" where
  "setHours e t hour =
     (let tl = LocalTime e t;
          date = MakeDate (Day tl) (MakeTime hour (MinFromTime tl) (SecFromTime tl) (msFromTime tl))
      in TimeClip (UTC e date))"

section \<open>Authentication (server/auth.ts)\<close>

definition JWT_EXPIRES_IN :: string where
  "JWT_EXPIRES_IN = ''24h''"

definition BCRYPT_ROUNDS :: nat where
  "BCRYPT_ROUNDS = 10"

definition hashPassword :: "env \<Rightarrow> string \<Rightarrow> string" where
  "hashPassword e password = bcrypt_hash e password BCRYPT_ROUNDS"

definition verifyPassword :: "env \<Rightarrow> string \<Rightarrow> string \<Rightarrow> bool" where
  "verifyPassword e password hash = bcrypt_compare e password hash"

definition generateToken :: "env \<Rightarrow> user \<Rightarrow> string" where
  "generateToken e u =
     jwt_sign e \<lparr>c_id = u_id u, c_email = u_email u, c_role = u_role u\<rparr>
       (JWT_SECRET e) JWT_EXPIRES_IN (now e)"

definition verifyToken :: "env \<Rightarrow> string \<Rightarrow> claims option" where
  "verifyToken e token = jwt_verify e token (JWT_SECRET e) (now e)"

text \<open>
  \<open>authMiddleware\<close> reads the Authorization header. \<open>Inl\<close> is the response it
  sends itself, \<open>Inr\<close> is \<open>next()\<close> with \<open>req.user\<close> set.
\<close>

definition authMiddleware :: "env \<Rightarrow> string option \<Rightarrow> 'a response + claims" where
  "authMiddleware e authHeader =
     (case authHeader of
        None \<Rightarrow> Inl (Failure 401 ''UNAUTHORIZED'')
      | Some h \<Rightarrow>
          if h = [] \<or> take 7 h \<noteq> ''Bearer '' then Inl (Failure 401 ''UNAUTHORIZED'')
          else (case verifyToken e (drop 7 h) of
                  None \<Rightarrow> Inl (Failure 401 ''INVALID_TOKEN'')
                | Some decoded \<Rightarrow> Inr decoded))"

text \<open>\<open>requireRole(roles)\<close>, a middleware: it reads \<open>req.user\<close>, which may be unset.\<close>

definition requireRole :: "string list \<Rightarrow> claims option \<Rightarrow> 'a response + claims" where
  "requireRole roles req_user =
     (case req_user of
        None \<Rightarrow> Inl (Failure 401 ''UNAUTHORIZED'')
      | Some u \<Rightarrow>
          if c_role u \<notin> set roles then Inl (Failure 403 ''FORBIDDEN'') else Inr u)"

section \<open>Storage (server/storage.ts): diagnostics\<close>

definition getDiagnostic :: "string \<Rightarrow> db \<Rightarrow> diagnostic option" where
  "getDiagnostic i s = first_row (filter (\<lambda>d. d_id d = i) (diagnostics s))"

definition set_review :: "timestamp \<Rightarrow> string \<Rightarrow> string \<Rightarrow> string option \<Rightarrow> diagnostic \<Rightarrow> diagnostic" where
  "set_review t reviewedById reviewStatus reviewNotes d =
     d\<lparr>d_reviewStatus := reviewStatus,
       d_reviewedById := Some reviewedById,
       d_reviewedAt := Some t,
       d_reviewNotes := or_null reviewNotes\<rparr>"

text \<open>
  \<open>reviewed_by_id\<close> references \<open>users.id\<close>: the update of a row throws when the
  reviewer has no row in \<open>users\<close>. An update that matches no row checks nothing.
\<close>

definition updateDiagnosticReview ::
  "env \<Rightarrow> string \<Rightarrow> string \<Rightarrow> string \<Rightarrow> string option \<Rightarrow> db
     \<Rightarrow> (diagnostic option \<times> db) option" where
  "updateDiagnosticReview e i reviewedById reviewStatus reviewNotes s =
     (if diagnostic_exists i s \<and> \<not> user_exists reviewedById s then None
      else
        (let upd = set_review (now e) reviewedById reviewStatus reviewNotes;
             rows = map (\<lambda>d. if d_id d = i then upd d else d) (diagnostics s)
         in Some (first_row (filter (\<lambda>d. d_id d = i) rows), s\<lparr>diagnostics := rows\<rparr>)))"

section \<open>Routes (server/routes.ts): diagnostic review\<close>

record review_body =
  reviewStatus :: "string option"
  reviewNotes :: "string option"

text \<open>
  The handler of \<open>PUT /api/diagnostics/:id/review\<close>, after the two middlewares.
  What the storage throws ends in the \<open>catch\<close>, a 400.
\<close>

definition review_handler ::
  "env \<Rightarrow> claims \<Rightarrow> string \<Rightarrow> review_body \<Rightarrow> db \<Rightarrow> diagnostic response \<times> db" where
  "review_handler e u i b s =
     (case reviewStatus b of
        None \<Rightarrow> (Failure 400 ''MISSING_STATUS'', s)
      | Some st \<Rightarrow>
          if st = [] then (Failure 400 ''MISSING_STATUS'', s)
          else (case updateDiagnosticReview e i (c_id u) st (reviewNotes b) s of
                  None \<Rightarrow> (Failure 400 ''VALIDATION_ERROR'', s)
                | Some (None, s') \<Rightarrow> (Failure 404 ''DIAGNOSTIC_NOT_FOUND'', s')
                | Some (Some d, s') \<Rightarrow> (Success 200 d, s')))"

text \<open>The route: \<open>authMiddleware\<close>, \<open>requireRole(['admin', 'super_admin'])\<close>, handler.\<close>

definition put_diagnostic_review ::
  "env \<Rightarrow> string option \<Rightarrow> string \<Rightarrow> review_body \<Rightarrow> db \<Rightarrow> diagnostic response \<times> db" where
  "put_diagnostic_review e authHeader i b s =
     (case authMiddleware e authHeader of
        Inl r \<Rightarrow> (r, s)
      | Inr u \<Rightarrow>
          (case requireRole [''admin'', ''super_admin''] (Some u) of
             Inl r \<Rightarrow> (r, s)
           | Inr u' \<Rightarrow> review_handler e u' i b s))"

section \<open>Storage (server/storage.ts): users\<close>

text \<open>
  \<open>InsertUser\<close>, as \<open>registerSchema\<close> validates it: the columns of \<open>users\<close> without
  \<open>id\<close>, \<open>createdAt\<close> and \<open>lastLoginAt\<close>; a column with a default may be left out.
  (\<open>updatedAt\<close> stays with its default: a JSON body holds no \<open>Date\<close>.)
\<close>

record insertUser =
  iu_email :: string
  iu_password :: string
  iu_fullName :: string
  iu_role :: "string option"
  iu_phoneNumber :: "string option"
  iu_facilityName :: "string option"
  iu_district :: "string option"
  iu_isActive :: "bool option"

text \<open>The \<open>data\<close> of \<open>updateUser\<close>: \<open>None\<close> is a key the object does not have.\<close>

record userUpdate =
  uu_fullName :: "string option"
  uu_phoneNumber :: "string option"
  uu_facilityName :: "string option"
  uu_district :: "string option"
  uu_password :: "string option"

definition getUser :: "string \<Rightarrow> db \<Rightarrow> user option" where
  "getUser i s = first_row (filter (\<lambda>u. u_id u = i) (users s))"

definition getUserByEmail :: "string \<Rightarrow> db \<Rightarrow> user option" where
  "getUserByEmail email s = first_row (filter (\<lambda>u. u_email u = email) (users s))"

definition createUser :: "env \<Rightarrow> insertUser \<Rightarrow> db \<Rightarrow> user \<times> db" where
  "createUser e ins s =
     (let u = \<lparr>u_id = gen_random_uuid e,
                u_email = iu_email ins,
                u_password = iu_password ins,
                u_fullName = iu_fullName ins,
                u_role = (case iu_role ins of None \<Rightarrow> ''health_worker'' | Some r \<Rightarrow> r),
                u_phoneNumber = iu_phoneNumber ins,
                u_facilityName = iu_facilityName ins,
                u_district = iu_district ins,
                u_isActive = (case iu_isActive ins of None \<Rightarrow> True | Some a \<Rightarrow> a),
                u_lastLoginAt = None,
                u_createdAt = db_now e,
                u_updatedAt = db_now e\<rparr>
      in (u, s\<lparr>users := users s @ [u]\<rparr>))"

definition apply_userUpdate :: "timestamp \<Rightarrow> userUpdate \<Rightarrow> user \<Rightarrow> user" where
  "apply_userUpdate t data u =
     u\<lparr>u_fullName := (case uu_fullName data of None \<Rightarrow> u_fullName u | Some v \<Rightarrow> v),
       u_phoneNumber := (case uu_phoneNumber data of None \<Rightarrow> u_phoneNumber u | Some v \<Rightarrow> Some v),
       u_facilityName := (case uu_facilityName data of None \<Rightarrow> u_facilityName u | Some v \<Rightarrow> Some v),
       u_district := (case uu_district data of None \<Rightarrow> u_district u | Some v \<Rightarrow> Some v),
       u_password := (case uu_password data of None \<Rightarrow> u_password u | Some v \<Rightarrow> v),
       u_updatedAt := t\<rparr>"

definition updateUser :: "env \<Rightarrow> string \<Rightarrow> userUpdate \<Rightarrow> db \<Rightarrow> user option \<times> db" where
  "updateUser e i data s =
     (let rows = map (\<lambda>u. if u_id u = i then apply_userUpdate (now e) data u else u) (users s)
      in (first_row (filter (\<lambda>u. u_id u = i) rows), s\<lparr>users := rows\<rparr>))"

definition updateLastLogin :: "env \<Rightarrow> string \<Rightarrow> db \<Rightarrow> db" where
  "updateLastLogin e i s =
     s\<lparr>users := map (\<lambda>u. if u_id u = i then u\<lparr>u_lastLoginAt := Some (now e)\<rparr> else u) (users s)\<rparr>"

section \<open>Storage (server/storage.ts): password reset tokens\<close>

record insertPasswordResetToken =
  it_userId :: string
  it_token :: string
  it_expiresAt :: timestamp

text \<open>\<open>user_id\<close> references \<open>users.id\<close>; \<open>created_at\<close> is the database's \<open>now()\<close>.\<close>

definition createPasswordResetToken ::
  "env \<Rightarrow> insertPasswordResetToken \<Rightarrow> db \<Rightarrow> (passwordResetToken \<times> db) option" where
  "createPasswordResetToken e ins s =
     (if \<not> user_exists (it_userId ins) s then None
      else
        (let t = \<lparr>t_id = gen_random_uuid e,
                   t_userId = it_userId ins,
                   t_token = it_token ins,
                   t_expiresAt = it_expiresAt ins,
                   t_usedAt = None,
                   t_createdAt = db_now e\<rparr>
         in Some (t, s\<lparr>passwordResetTokens := passwordResetTokens s @ [t]\<rparr>)))"

definition getPasswordResetToken :: "string \<Rightarrow> db \<Rightarrow> passwordResetToken option" where
  "getPasswordResetToken token s =
     first_row (filter (\<lambda>t. t_token t = token) (passwordResetTokens s))"

definition markTokenAsUsed :: "env \<Rightarrow> string \<Rightarrow> db \<Rightarrow> db" where
  "markTokenAsUsed e i s =
     s\<lparr>passwordResetTokens :=
         map (\<lambda>t. if t_id t = i then t\<lparr>t_usedAt := Some (now e)\<rparr> else t) (passwordResetTokens s)\<rparr>"

section \<open>Storage (server/storage.ts): notifications\<close>

text \<open>
  \<open>InsertNotification\<close>: the columns of \<open>notifications\<close> without \<open>id\<close>, \<open>createdAt\<close>,
  \<open>sentAt\<close>, \<open>status\<close> and \<open>retryCount\<close>.
\<close>

record insertNotification =
  in_userId :: "string option"
  in_diagnosticId :: "string option"
  in_type :: string
  in_recipient :: string
  in_subject :: "string option"
  in_message :: string
  in_priority :: "string option"
  in_errorMessage :: "string option"

text \<open>
  \<open>user_id\<close> references \<open>users.id\<close> and \<open>diagnostic_id\<close> references
  \<open>diagnostics.id\<close>, both nullable.
\<close>

definition createNotification ::
  "env \<Rightarrow> insertNotification \<Rightarrow> db \<Rightarrow> (notification \<times> db) option" where
  "createNotification e ins s =
     (if \<not> fk_nullable user_exists (in_userId ins) s
         \<or> \<not> fk_nullable diagnostic_exists (in_diagnosticId ins) s then None
      else
     (let n = \<lparr>n_id = gen_random_uuid e,
                n_userId = in_userId ins,
                n_diagnosticId = in_diagnosticId ins,
                n_type = in_type ins,
                n_recipient = in_recipient ins,
                n_subject = in_subject ins,
                n_message = in_message ins,
                n_status = ''pending'',
                n_priority = (case in_priority ins of None \<Rightarrow> ''routine'' | Some p \<Rightarrow> p),
                n_sentAt = None,
                n_errorMessage = in_errorMessage ins,
                n_retryCount = 0,
                n_createdAt = db_now e\<rparr>
      in Some (n, s\<lparr>notifications := notifications s @ [n]\<rparr>)))"

definition set_status :: "timestamp \<Rightarrow> string \<Rightarrow> string option \<Rightarrow> notification \<Rightarrow> notification" where
  "set_status t status errorMessage n =
     n\<lparr>n_status := status,
       n_sentAt := (if status = ''sent'' then Some t else None),
       n_errorMessage := or_null errorMessage,
       n_retryCount := (if status = ''failed'' then n_retryCount n + 1 else n_retryCount n)\<rparr>"

text \<open>
  \<open>retry_count + 1\<close> is computed by the database in the type \<open>integer\<close>: the
  update throws (integer out of range) when a row it addresses would pass
  \<open>INT4_MAX\<close>.
\<close>

definition updateNotificationStatus ::
  "env \<Rightarrow> string \<Rightarrow> string \<Rightarrow> string option \<Rightarrow> db \<Rightarrow> (notification option \<times> db) option" where
  "updateNotificationStatus e i status errorMessage s =
     (if status = ''failed''
         \<and> (\<exists>n \<in> set (notifications s). n_id n = i \<and> INT4_MAX < n_retryCount n + 1) then None
      else
        (let rows = map (\<lambda>n. if n_id n = i then set_status (now e) status errorMessage n else n)
                      (notifications s)
         in Some (first_row (filter (\<lambda>n. n_id n = i) rows), s\<lparr>notifications := rows\<rparr>)))"

section \<open>Storage (server/storage.ts): creating a diagnostic\<close>

text \<open>
  \<open>InsertDiagnostic\<close>: the columns of \<open>diagnostics\<close> without \<open>id\<close>, \<open>createdAt\<close>,
  \<open>reviewedAt\<close> and \<open>reviewStatus\<close>.
\<close>

record insertDiagnostic =
  id_patientId :: string
  id_submittedById :: string
  id_imageUrl :: string
  id_result :: string
  id_parasiteCount :: "int option"
  id_aiConfidenceScore :: "int option"
  id_reviewedById :: "string option"
  id_reviewNotes :: "string option"
  id_symptoms :: "string option"
  id_testDate :: "timestamp option"

text \<open>
  \<open>patient_id\<close> references \<open>patients.id\<close>; \<open>submitted_by_id\<close> and
  \<open>reviewed_by_id\<close> reference \<open>users.id\<close>.
\<close>

definition createDiagnostic :: "env \<Rightarrow> insertDiagnostic \<Rightarrow> db \<Rightarrow> (diagnostic \<times> db) option" where
  "createDiagnostic e ins s =
     (if \<not> patient_exists (id_patientId ins) s
         \<or> \<not> user_exists (id_submittedById ins) s
         \<or> \<not> fk_nullable user_exists (id_reviewedById ins) s then None
      else
     (let d = \<lparr>d_id = gen_random_uuid e,
                d_patientId = id_patientId ins,
                d_submittedById = id_submittedById ins,
                d_imageUrl = id_imageUrl ins,
                d_result = id_result ins,
                d_parasiteCount = id_parasiteCount ins,
                d_aiConfidenceScore = id_aiConfidenceScore ins,
                d_reviewStatus = ''pending'',
                d_reviewedById = id_reviewedById ins,
                d_reviewedAt = None,
                d_reviewNotes = id_reviewNotes ins,
                d_symptoms = id_symptoms ins,
                d_testDate = (case id_testDate ins of None \<Rightarrow> db_now e | Some t \<Rightarrow> t),
                d_createdAt = db_now e\<rparr>
      in Some (d, s\<lparr>diagnostics := diagnostics s @ [d]\<rparr>)))"

section \<open>Routes (server/routes.ts): authentication\<close>

text \<open>
  A row of \<open>users\<close> as the JavaScript object the handlers hold: its keys in the
  order of the table, so that \<open>const { password, ...userWithoutPassword } = user\<close>
  is the object without the key \<open>password\<close>.
\<close>

datatype jval = JString string | JBool bool | JDate timestamp | JNull

fun nullable :: "('a \<Rightarrow> jval) \<Rightarrow> 'a option \<Rightarrow> jval" where
  "nullable f None = JNull"
| "nullable f (Some x) = f x"

definition user_object :: "user \<Rightarrow> (string \<times> jval) list" where
  "user_object u =
     [(''id'', JString (u_id u)),
      (''email'', JString (u_email u)),
      (''password'', JString (u_password u)),
      (''fullName'', JString (u_fullName u)),
      (''role'', JString (u_role u)),
      (''phoneNumber'', nullable JString (u_phoneNumber u)),
      (''facilityName'', nullable JString (u_facilityName u)),
      (''district'', nullable JString (u_district u)),
      (''isActive'', JBool (u_isActive u)),
      (''lastLoginAt'', nullable JDate (u_lastLoginAt u)),
      (''createdAt'', JDate (u_createdAt u)),
      (''updatedAt'', JDate (u_updatedAt u))]"

definition without_password :: "(string \<times> jval) list \<Rightarrow> (string \<times> jval) list" where
  "without_password obj = filter (\<lambda>kv. fst kv \<noteq> ''password'') obj"

text \<open>
  What the specification wants a response to hold of a user: every column of the row
  but the password digest. It is written out here column by column, to compare the
  handlers' answers with.
\<close>

definition user_public :: "user \<Rightarrow> (string \<times> jval) list" where
  "user_public u =
     [(''id'', JString (u_id u)),
      (''email'', JString (u_email u)),
      (''fullName'', JString (u_fullName u)),
      (''role'', JString (u_role u)),
      (''phoneNumber'', nullable JString (u_phoneNumber u)),
      (''facilityName'', nullable JString (u_facilityName u)),
      (''district'', nullable JString (u_district u)),
      (''isActive'', JBool (u_isActive u)),
      (''lastLoginAt'', nullable JDate (u_lastLoginAt u)),
      (''createdAt'', JDate (u_createdAt u)),
      (''updatedAt'', JDate (u_updatedAt u))]"

text \<open>The JSON body of a request: \<open>None\<close> is a key the body does not have.\<close>

record register_body =
  rb_email :: "string option"
  rb_password :: "string option"
  rb_fullName :: "string option"
  rb_role :: "string option"
  rb_phoneNumber :: "string option"
  rb_facilityName :: "string option"
  rb_district :: "string option"
  rb_isActive :: "bool option"

definition registerSchema :: "env \<Rightarrow> register_body \<Rightarrow> insertUser option" where
  "registerSchema e b =
     (case rb_email b of None \<Rightarrow> None | Some em \<Rightarrow>
     (case rb_password b of None \<Rightarrow> None | Some pw \<Rightarrow>
     (case rb_fullName b of None \<Rightarrow> None | Some fn \<Rightarrow>
        if zod_email e em \<and> 8 \<le> length pw \<and> 2 \<le> length fn
           \<and> (case rb_role b of None \<Rightarrow> True
               | Some r \<Rightarrow> r \<in> set [''health_worker'', ''admin'', ''super_admin''])
        then Some \<lparr>iu_email = em, iu_password = pw, iu_fullName = fn, iu_role = rb_role b,
                   iu_phoneNumber = rb_phoneNumber b, iu_facilityName = rb_facilityName b,
                   iu_district = rb_district b, iu_isActive = rb_isActive b\<rparr>
        else None)))"

definition post_auth_register ::
  "env \<Rightarrow> register_body \<Rightarrow> db \<Rightarrow> ((string \<times> jval) list \<times> string) response \<times> db" where
  "post_auth_register e b s =
     (case registerSchema e b of
        None \<Rightarrow> (Failure 400 ''VALIDATION_ERROR'', s)
      | Some validatedData \<Rightarrow>
          (case getUserByEmail (iu_email validatedData) s of
             Some existingUser \<Rightarrow> (Failure 400 ''USER_EXISTS'', s)
           | None \<Rightarrow>
               (let hashedPassword = hashPassword e (iu_password validatedData);
                    (u, s') = createUser e (validatedData\<lparr>iu_password := hashedPassword\<rparr>) s;
                    token = generateToken e u
                in (Success 201 (without_password (user_object u), token), s'))))"

record login_body =
  lb_email :: "string option"
  lb_password :: "string option"

definition loginSchema :: "env \<Rightarrow> login_body \<Rightarrow> (string \<times> string) option" where
  "loginSchema e b =
     (case lb_email b of None \<Rightarrow> None | Some em \<Rightarrow>
     (case lb_password b of None \<Rightarrow> None | Some pw \<Rightarrow>
        if zod_email e em \<and> 1 \<le> length pw then Some (em, pw) else None))"

definition post_auth_login ::
  "env \<Rightarrow> login_body \<Rightarrow> db \<Rightarrow> ((string \<times> jval) list \<times> string) response \<times> db" where
  "post_auth_login e b s =
     (case loginSchema e b of
        None \<Rightarrow> (Failure 400 ''VALIDATION_ERROR'', s)
      | Some (email, password) \<Rightarrow>
          (case getUserByEmail email s of
             None \<Rightarrow> (Failure 401 ''INVALID_CREDENTIALS'', s)
           | Some u \<Rightarrow>
               if \<not> verifyPassword e password (u_password u)
               then (Failure 401 ''INVALID_CREDENTIALS'', s)
               else (let s' = updateLastLogin e (u_id u) s;
                         token = generateToken e u
                     in (Success 200 (without_password (user_object u), token), s'))))"

record forgot_data =
  fd_message :: string
  fd_resetToken :: "string option"

definition forgotPasswordSchema :: "env \<Rightarrow> string option \<Rightarrow> string option" where
  "forgotPasswordSchema e email =
     (case email of None \<Rightarrow> None | Some em \<Rightarrow> if zod_email e em then Some em else None)"

text \<open>
  \<open>expiresAt\<close> is \<open>new Date()\<close> after \<open>expiresAt.setHours(expiresAt.getHours() + 1)\<close>.
  An Invalid Date has no ISO string, so the insert of one throws; what throws ends
  in the \<open>catch\<close>, a 400.
\<close>

definition post_auth_forgot_password ::
  "env \<Rightarrow> string option \<Rightarrow> db \<Rightarrow> forgot_data response \<times> db" where
  "post_auth_forgot_password e email s =
     (case forgotPasswordSchema e email of
        None \<Rightarrow> (Failure 400 ''VALIDATION_ERROR'', s)
      | Some em \<Rightarrow>
          (case getUserByEmail em s of
             None \<Rightarrow>
               (Success 200
                  \<lparr>fd_message = ''If an account exists with that email, password reset instructions have been sent'',
                   fd_resetToken = None\<rparr>, s)
           | Some u \<Rightarrow>
               (let resetToken = nanoid e 32 in
                (case setHours e (now e) (getHours e (now e) + 1) of
                   None \<Rightarrow> (Failure 400 ''VALIDATION_ERROR'', s)
                 | Some expiresAt \<Rightarrow>
                     (case createPasswordResetToken e
                        \<lparr>it_userId = u_id u, it_token = resetToken, it_expiresAt = expiresAt\<rparr> s of
                        None \<Rightarrow> (Failure 400 ''VALIDATION_ERROR'', s)
                      | Some (t, s') \<Rightarrow>
                          (Success 200
                             \<lparr>fd_message = ''Password reset instructions sent to your email'',
                              fd_resetToken =
                                (if NODE_ENV e = Some ''development'' then Some resetToken
                                 else None)\<rparr>,
                           s'))))))"

record reset_body =
  token :: "string option"
  newPassword :: "string option"

definition resetPasswordSchema :: "reset_body \<Rightarrow> (string \<times> string) option" where
  "resetPasswordSchema b =
     (case token b of None \<Rightarrow> None | Some tok \<Rightarrow>
     (case newPassword b of None \<Rightarrow> None | Some pw \<Rightarrow>
        if 1 \<le> length tok \<and> 8 \<le> length pw then Some (tok, pw) else None))"

definition post_auth_reset_password :: "env \<Rightarrow> reset_body \<Rightarrow> db \<Rightarrow> string response \<times> db" where
  "post_auth_reset_password e b s =
     (case resetPasswordSchema b of
        None \<Rightarrow> (Failure 400 ''VALIDATION_ERROR'', s)
      | Some (tok, pw) \<Rightarrow>
          (case getPasswordResetToken tok s of
             None \<Rightarrow> (Failure 400 ''INVALID_TOKEN'', s)
           | Some resetToken \<Rightarrow>
               if t_usedAt resetToken \<noteq> None then (Failure 400 ''INVALID_TOKEN'', s)
               else if now e > t_expiresAt resetToken then (Failure 400 ''TOKEN_EXPIRED'', s)
               else (let hashedPassword = hashPassword e pw;
                         (u, s1) = updateUser e (t_userId resetToken)
                            \<lparr>uu_fullName = None, uu_phoneNumber = None, uu_facilityName = None,
                             uu_district = None, uu_password = Some hashedPassword\<rparr> s;
                         s2 = markTokenAsUsed e (t_id resetToken) s1
                     in (Success 200 ''Password successfully reset'', s2))))"

section \<open>Routes (server/routes.ts): user profile\<close>

definition get_users_profile ::
  "env \<Rightarrow> string option \<Rightarrow> db \<Rightarrow> (string \<times> jval) list response \<times> db" where
  "get_users_profile e authHeader s =
     (case authMiddleware e authHeader of
        Inl r \<Rightarrow> (r, s)
      | Inr req_user \<Rightarrow>
          (case getUser (c_id req_user) s of
             None \<Rightarrow> (Failure 404 ''USER_NOT_FOUND'', s)
           | Some u \<Rightarrow> (Success 200 (without_password (user_object u)), s)))"

text \<open>
  The body of \<open>PUT /api/users/profile\<close>. \<open>updateProfileSchema\<close> is a \<open>z.object\<close>
  of four keys; it drops every other key of the body, \<open>password\<close> among them.
\<close>

record profile_body =
  pb_fullName :: "string option"
  pb_phoneNumber :: "string option"
  pb_facilityName :: "string option"
  pb_district :: "string option"
  pb_password :: "string option"

definition updateProfileSchema :: "profile_body \<Rightarrow> userUpdate option" where
  "updateProfileSchema b =
     (if (case pb_fullName b of None \<Rightarrow> True | Some fn \<Rightarrow> 2 \<le> length fn)
      then Some \<lparr>uu_fullName = pb_fullName b, uu_phoneNumber = pb_phoneNumber b,
                 uu_facilityName = pb_facilityName b, uu_district = pb_district b,
                 uu_password = None\<rparr>
      else None)"

definition put_users_profile ::
  "env \<Rightarrow> string option \<Rightarrow> profile_body \<Rightarrow> db \<Rightarrow> (string \<times> jval) list response \<times> db" where
  "put_users_profile e authHeader b s =
     (case authMiddleware e authHeader of
        Inl r \<Rightarrow> (r, s)
      | Inr req_user \<Rightarrow>
          (case updateProfileSchema b of
             None \<Rightarrow> (Failure 400 ''VALIDATION_ERROR'', s)
           | Some validatedData \<Rightarrow>
               (case updateUser e (c_id req_user) validatedData s of
                  (None, s') \<Rightarrow> (Failure 404 ''USER_NOT_FOUND'', s')
                | (Some u, s') \<Rightarrow> (Success 200 (without_password (user_object u)), s'))))"

section \<open>Routes (server/routes.ts): submitting a diagnostic\<close>

definition isS3Configured :: "env \<Rightarrow> bool" where
  "isS3Configured e = (truthy (AWS_ACCESS_KEY_ID e) \<and> truthy (AWS_SECRET_ACCESS_KEY e))"

text \<open>
  The object the handler builds from the multipart form. The form is a map from
  field names to strings; the handler reads six of its fields and no other.
\<close>

text \<open>What a request can put under a key that the schema wants a \<open>Date\<close> for.\<close>

datatype date_input = IsoString string | DateObject timestamp

record diagnosticData =
  dd_patientId :: "string option"
  dd_submittedById :: string
  dd_imageUrl :: string
  dd_result :: string
  dd_parasiteCount :: "jsnumber option"
  dd_aiConfidenceScore :: "jsnumber option"
  dd_symptoms :: "string option"
  dd_testDate :: date_input

text \<open>The schema of a nullable \<open>integer\<close> column: an integer in the column's range.\<close>

fun schema_integer :: "jsnumber option \<Rightarrow> int option option" where
  "schema_integer None = Some None"
| "schema_integer (Some NaN) = None"
| "schema_integer (Some (Num k)) = (if INT4_MIN \<le> k \<and> k \<le> INT4_MAX then Some (Some k) else None)"

text \<open>The schema of a timestamp column is \<open>z.date()\<close>: it takes a \<open>Date\<close>, no string.\<close>

fun schema_date :: "date_input \<Rightarrow> timestamp option" where
  "schema_date (IsoString v) = None"
| "schema_date (DateObject t) = Some t"

text \<open>
  \<open>insertDiagnosticSchema.parse\<close>: \<open>patientId\<close> is required, an integer column
  takes no \<open>NaN\<close>, the timestamp column takes a \<open>Date\<close>. The schema has no key
  \<open>reviewStatus\<close>.
\<close>

definition insertDiagnosticSchema :: "diagnosticData \<Rightarrow> insertDiagnostic option" where
  "insertDiagnosticSchema dd =
     (case dd_patientId dd of None \<Rightarrow> None | Some pid \<Rightarrow>
     (case schema_integer (dd_parasiteCount dd) of None \<Rightarrow> None | Some pc \<Rightarrow>
     (case schema_integer (dd_aiConfidenceScore dd) of None \<Rightarrow> None | Some ai \<Rightarrow>
     (case schema_date (dd_testDate dd) of None \<Rightarrow> None | Some td \<Rightarrow>
        Some \<lparr>id_patientId = pid, id_submittedById = dd_submittedById dd,
              id_imageUrl = dd_imageUrl dd, id_result = dd_result dd,
              id_parasiteCount = pc, id_aiConfidenceScore = ai,
              id_reviewedById = None, id_reviewNotes = None,
              id_symptoms = dd_symptoms dd, id_testDate = Some td\<rparr>))))"

text \<open>
  The handler of \<open>POST /api/diagnostics/submit\<close> after \<open>authMiddleware\<close> and the
  upload middleware: \<open>file\<close> is \<open>req.file.originalname\<close>, \<open>body\<close> is \<open>req.body\<close>.
  Whatever throws inside the \<open>try\<close> ends in the \<open>catch\<close>, a 400.
\<close>

definition submit_handler ::
  "env \<Rightarrow> claims \<Rightarrow> string option \<Rightarrow> (string \<Rightarrow> string option) \<Rightarrow> db \<Rightarrow> diagnostic response \<times> db" where
  "submit_handler e req_user file body s =
     (case file of
        None \<Rightarrow> (Failure 400 ''NO_IMAGE'', s)
      | Some originalname \<Rightarrow>
          (case (if isS3Configured e then uploadImageToS3 e originalname (c_id req_user)
                 else Some (''http://localhost:5000/uploads/'' @ nanoid e 21 @ ''_'' @ originalname)) of
             None \<Rightarrow> (Failure 400 ''VALIDATION_ERROR'', s)
           | Some imageUrl \<Rightarrow>
               (case when_truthy (body ''symptoms'') (\<lambda>v. map_option Some (JSON_parse e v)) (Some None) of
                  None \<Rightarrow> (Failure 400 ''VALIDATION_ERROR'', s)
                | Some symptoms \<Rightarrow>
                    (let diagnosticData =
                       \<lparr>dd_patientId = body ''patientId'',
                        dd_submittedById = c_id req_user,
                        dd_imageUrl = imageUrl,
                        dd_result = when_truthy (body ''result'') (\<lambda>v. v) ''pending'',
                        dd_parasiteCount =
                          when_truthy (body ''parasiteCount'') (\<lambda>v. Some (parseInt e v)) None,
                        dd_aiConfidenceScore =
                          when_truthy (body ''aiConfidenceScore'') (\<lambda>v. Some (parseInt e v)) None,
                        dd_symptoms = symptoms,
                        dd_testDate =
                          IsoString (when_truthy (body ''testDate'') (\<lambda>v. v) (toISOString e (now e)))\<rparr>
                     in (case insertDiagnosticSchema diagnosticData of
                           None \<Rightarrow> (Failure 400 ''VALIDATION_ERROR'', s)
                         | Some validatedData \<Rightarrow>
                             (case createDiagnostic e validatedData s of
                                None \<Rightarrow> (Failure 400 ''VALIDATION_ERROR'', s)
                              | Some (d, s') \<Rightarrow> (Success 201 d, s')))))))"

definition post_diagnostics_submit ::
  "env \<Rightarrow> string option \<Rightarrow> string option \<Rightarrow> (string \<Rightarrow> string option) \<Rightarrow> db
     \<Rightarrow> diagnostic response \<times> db" where
  "post_diagnostics_submit e authHeader file body s =
     (case authMiddleware e authHeader of
        Inl r \<Rightarrow> (r, s)
      | Inr req_user \<Rightarrow> submit_handler e req_user file body s)"

section \<open>Notification service (server/notifications.ts)\<close>

record send_result =
  sr_success :: bool
  sr_error :: "string option"

definition isTwilioConfigured :: "env \<Rightarrow> bool" where
  "isTwilioConfigured e =
     (truthy (TWILIO_ACCOUNT_SID e) \<and> truthy (TWILIO_AUTH_TOKEN e) \<and> truthy (TWILIO_PHONE_NUMBER e))"

definition isSendGridConfigured :: "env \<Rightarrow> bool" where
  "isSendGridConfigured e = truthy (SENDGRID_API_KEY e)"

definition sendSMS :: "env \<Rightarrow> string \<Rightarrow> string \<Rightarrow> send_result" where
  "sendSMS e to message =
     (if \<not> isTwilioConfigured e then \<lparr>sr_success = True, sr_error = None\<rparr>
      else \<lparr>sr_success = True, sr_error = None\<rparr>)"

definition sendEmail :: "env \<Rightarrow> string \<Rightarrow> string \<Rightarrow> string \<Rightarrow> send_result" where
  "sendEmail e to subject message =
     (if \<not> isSendGridConfigured e then \<lparr>sr_success = True, sr_error = None\<rparr>
      else \<lparr>sr_success = True, sr_error = None\<rparr>)"

section \<open>Routes (server/routes.ts): notifications\<close>

text \<open>
  The JSON body of \<open>POST /api/notifications/send\<close>. \<open>insertNotificationSchema\<close>
  has no keys \<open>status\<close>, \<open>retryCount\<close> and \<open>sentAt\<close>: it drops them from the body;
  the handler overwrites \<open>userId\<close> with the caller's id before it parses.
\<close>

record send_body =
  sb_userId :: "string option"
  sb_diagnosticId :: "string option"
  sb_type :: "string option"
  sb_recipient :: "string option"
  sb_subject :: "string option"
  sb_message :: "string option"
  sb_priority :: "string option"
  sb_errorMessage :: "string option"
  sb_status :: "string option"
  sb_retryCount :: "int option"

definition insertNotificationSchema :: "send_body \<Rightarrow> insertNotification option" where
  "insertNotificationSchema b =
     (case sb_type b of None \<Rightarrow> None | Some ty \<Rightarrow>
     (case sb_recipient b of None \<Rightarrow> None | Some rcp \<Rightarrow>
     (case sb_message b of None \<Rightarrow> None | Some msg \<Rightarrow>
        Some \<lparr>in_userId = sb_userId b, in_diagnosticId = sb_diagnosticId b,
              in_type = ty, in_recipient = rcp, in_subject = sb_subject b,
              in_message = msg, in_priority = sb_priority b,
              in_errorMessage = sb_errorMessage b\<rparr>)))"

definition post_notifications_send ::
  "env \<Rightarrow> string option \<Rightarrow> send_body \<Rightarrow> db \<Rightarrow> notification response \<times> db" where
  "post_notifications_send e authHeader b s =
     (case authMiddleware e authHeader of
        Inl r \<Rightarrow> (r, s)
      | Inr req_user \<Rightarrow>
          (case insertNotificationSchema (b\<lparr>sb_userId := Some (c_id req_user)\<rparr>) of
             None \<Rightarrow> (Failure 400 ''VALIDATION_ERROR'', s)
           | Some validatedData \<Rightarrow>
               (case createNotification e validatedData s of
                  None \<Rightarrow> (Failure 400 ''VALIDATION_ERROR'', s)
                | Some (n, s') \<Rightarrow> (Success 201 n, s'))))"

record status_body =
  status :: "string option"
  errorMessage :: "string option"

definition put_notification_status ::
  "env \<Rightarrow> string option \<Rightarrow> string \<Rightarrow> status_body \<Rightarrow> db \<Rightarrow> notification response \<times> db" where
  "put_notification_status e authHeader i b s =
     (case authMiddleware e authHeader of
        Inl r \<Rightarrow> (r, s)
      | Inr req_user \<Rightarrow>
          (case status b of
             None \<Rightarrow> (Failure 400 ''MISSING_STATUS'', s)
           | Some st \<Rightarrow>
               if st = [] then (Failure 400 ''MISSING_STATUS'', s)
               else (case updateNotificationStatus e i st (errorMessage b) s of
                       None \<Rightarrow> (Failure 400 ''VALIDATION_ERROR'', s)
                     | Some (None, s') \<Rightarrow> (Failure 404 ''NOTIFICATION_NOT_FOUND'', s')
                     | Some (Some n, s') \<Rightarrow> (Success 200 n, s'))))"

section \<open>The API as a state machine\<close>

text \<open>
  One request to one of the routes above, and the state it leaves. The routes of
  patients, the deletion of an account and the routes that only read are not among
  them; none of them writes a notification.
\<close>

datatype request =
    Register env register_body
  | Login env login_body
  | ForgotPassword env "string option"
  | ResetPassword env reset_body
  | GetProfile env "string option"
  | PutProfile env "string option" profile_body
  | SubmitDiagnostic env "string option" "string option" "string \<Rightarrow> string option"
  | ReviewDiagnostic env "string option" string review_body
  | SendNotification env "string option" send_body
  | SetNotificationStatus env "string option" string status_body

fun step :: "request \<Rightarrow> db \<Rightarrow> db" where
  "step (Register e b) s = snd (post_auth_register e b s)"
| "step (Login e b) s = snd (post_auth_login e b s)"
| "step (ForgotPassword e b) s = snd (post_auth_forgot_password e b s)"
| "step (ResetPassword e b) s = snd (post_auth_reset_password e b s)"
| "step (GetProfile e h) s = snd (get_users_profile e h s)"
| "step (PutProfile e h b) s = snd (put_users_profile e h b s)"
| "step (SubmitDiagnostic e h f b) s = snd (post_diagnostics_submit e h f b s)"
| "step (ReviewDiagnostic e h i b) s = snd (put_diagnostic_review e h i b s)"
| "step (SendNotification e h b) s = snd (post_notifications_send e h b s)"
| "step (SetNotificationStatus e h i b) s = snd (put_notification_status e h i b s)"

fun run :: "request list \<Rightarrow> db \<Rightarrow> db" where
  "run [] s = s"
| "run (r # rs) s = run rs (step r s)"

section \<open>A concrete environment and database\<close>

text \<open>
  Stand-ins for the libraries, to run the handlers on concrete requests: a token is
  the secret, a slash and the user's id, and is good until 24 hours after
  \<open>now = 1000000\<close>; a hash is the password behind a fixed prefix; the email check
  knows four addresses; the process runs in UTC.
\<close>

definition demo_admin :: user where
  "demo_admin =
     \<lparr>u_id = ''u-admin'', u_email = ''admin@example.org'', u_password = ''$2b$10$adminpass'',
      u_fullName = ''Ada Admin'', u_role = ''admin'', u_phoneNumber = None,
      u_facilityName = None, u_district = None, u_isActive = True,
      u_lastLoginAt = None, u_createdAt = 0, u_updatedAt = 0\<rparr>"

definition demo_worker :: user where
  "demo_worker =
     \<lparr>u_id = ''u-worker'', u_email = ''worker@example.org'', u_password = ''$2b$10$workerpass'',
      u_fullName = ''Will Worker'', u_role = ''health_worker'', u_phoneNumber = None,
      u_facilityName = None, u_district = None, u_isActive = False,
      u_lastLoginAt = None, u_createdAt = 0, u_updatedAt = 0\<rparr>"

definition demo_env :: env where
  "demo_env =
     \<lparr>now = 1000000,
      LocalTZA = (\<lambda>t isUTC. 0),
      db_now = 1000000,
      JWT_SECRET = ''s3cret'',
      NODE_ENV = None,
      TWILIO_ACCOUNT_SID = None,
      TWILIO_AUTH_TOKEN = None,
      TWILIO_PHONE_NUMBER = None,
      SENDGRID_API_KEY = None,
      AWS_ACCESS_KEY_ID = None,
      AWS_SECRET_ACCESS_KEY = None,
      jwt_sign = (\<lambda>c secret expiresIn t. secret @ ''/'' @ c_id c),
      jwt_verify = (\<lambda>tok secret t.
         if t < 87400000
         then map_of
           [(secret @ ''/u-admin'',
               \<lparr>c_id = ''u-admin'', c_email = ''admin@example.org'', c_role = ''admin''\<rparr>),
            (secret @ ''/u-worker'',
               \<lparr>c_id = ''u-worker'', c_email = ''worker@example.org'', c_role = ''health_worker''\<rparr>)]
           tok
         else None),
      bcrypt_hash = (\<lambda>password rounds. ''$2b$10$'' @ password),
      bcrypt_compare = (\<lambda>password hash. hash = ''$2b$10$'' @ password),
      gen_random_uuid = ''uuid-1'',
      nanoid = (\<lambda>size. ''nanoid-of-the-request''),
      zod_email = (\<lambda>s. s \<in> set [''admin@example.org'', ''worker@example.org'',
                                  ''eve@example.org'', ''nobody@example.org'']),
      parseInt = (\<lambda>s. if s = ''94'' then Num 94 else NaN),
      JSON_parse = (\<lambda>s. Some s),
      toISOString = (\<lambda>t. ''1970-01-01T00:16:40.000Z''),
      uploadImageToS3 = (\<lambda>originalName userId. None)\<rparr>"

definition demo_patient :: patient where
  "demo_patient =
     \<lparr>p_id = ''p1'', p_patientCode = ''P2026-0042'', p_age = Some 34, p_gender = None,
      p_district = None, p_facilityName = None, p_createdById = ''u-worker'',
      p_createdAt = 50, p_updatedAt = 50\<rparr>"

definition demo_diagnostic :: diagnostic where
  "demo_diagnostic =
     \<lparr>d_id = ''d1'', d_patientId = ''p1'', d_submittedById = ''u-worker'',
      d_imageUrl = ''http://localhost:5000/uploads/x_smear.png'', d_result = ''positive'',
      d_parasiteCount = None, d_aiConfidenceScore = Some 94, d_reviewStatus = ''verified'',
      d_reviewedById = Some ''u-admin'', d_reviewedAt = Some 500, d_reviewNotes = Some ''confirmed'',
      d_symptoms = None, d_testDate = 100, d_createdAt = 100\<rparr>"

definition demo_notification :: notification where
  "demo_notification =
     \<lparr>n_id = ''n1'', n_userId = Some ''u-admin'', n_diagnosticId = Some ''d1'', n_type = ''sms'',
      n_recipient = ''+26771234567'', n_subject = None, n_message = ''Result: POSITIVE'',
      n_status = ''sent'', n_priority = ''urgent'', n_sentAt = Some 600,
      n_errorMessage = None, n_retryCount = 0, n_createdAt = 550\<rparr>"

definition demo_token :: passwordResetToken where
  "demo_token =
     \<lparr>t_id = ''t1'', t_userId = ''u-worker'', t_token = ''reset-abc'',
      t_expiresAt = 2000000, t_usedAt = None, t_createdAt = 900000\<rparr>"

definition demo_db :: db where
  "demo_db =
     \<lparr>users = [demo_admin, demo_worker],
      patients = [demo_patient],
      diagnostics = [demo_diagnostic],
      notifications = [demo_notification],
      passwordResetTokens = [demo_token]\<rparr>"

text \<open>
  A process in the zone Europe/London at 00:30 UTC on 26 October 2025, the day
  British Summer Time ended at 01:00 UTC: the offset is one hour before that instant
  and none after, and a local time of the repeated hour is read with the offset
  before the change.
\<close>

definition london_env :: env where
  "london_env =
     demo_env\<lparr>now := 1761438600000, db_now := 1761438600000, LocalTZA := (\<lambda>t isUTC.
        if isUTC then (if t < 1761440400000 then 3600000 else 0)
        else (if t < 1761444000000 then 3600000 else 0))\<rparr>"

section \<open>Facts about the storage layer\<close>

lemma first_row_update:
  assumes "\<And>r. key (f r) = key r"
  shows "first_row (filter (\<lambda>r. key r = i) (map (\<lambda>r. if key r = i then f r else r) xs))
         = map_option f (first_row (filter (\<lambda>r. key r = i) xs))"
  using assms by (induction xs) auto

lemma first_row_filter_map:
  assumes "\<And>x. P (f x) = P x"
  shows "first_row (filter P (map f xs)) = map_option f (first_row (filter P xs))"
  using assms by (induction xs) auto

lemma first_row_filter_in: "first_row (filter P xs) = Some x \<Longrightarrow> x \<in> set xs \<and> P x"
  by (induction xs) (auto split: if_splits)

lemma set_review_id: "d_id (set_review t rb st notes d) = d_id d"
  by (simp add: set_review_def)

lemma updateDiagnosticReview_stored_reviewer:
  assumes "user_exists rb s"
  shows "updateDiagnosticReview e i rb st notes s
     = Some (map_option (set_review (now e) rb st notes) (getDiagnostic i s),
             s\<lparr>diagnostics := map (\<lambda>d. if d_id d = i then set_review (now e) rb st notes d else d)
                                (diagnostics s)\<rparr>)"
  using assms
  by (simp add: updateDiagnosticReview_def getDiagnostic_def Let_def
      first_row_update [where key = d_id] set_review_id)

lemma updateDiagnosticReview_no_reviewer:
  assumes "diagnostic_exists i s" and "\<not> user_exists rb s"
  shows "updateDiagnosticReview e i rb st notes s = None"
  using assms by (simp add: updateDiagnosticReview_def)

lemma getDiagnostic_reviewed:
  "getDiagnostic i (s\<lparr>diagnostics := map (\<lambda>d. if d_id d = i then set_review t rb st notes d else d)
                                (diagnostics s)\<rparr>)
     = map_option (set_review t rb st notes) (getDiagnostic i s)"
  by (simp add: getDiagnostic_def first_row_update [where key = d_id] set_review_id)

lemma set_status_id: "n_id (set_status t st err n) = n_id n"
  by (simp add: set_status_def)

lemma retryCount_set_status:
  "n_retryCount (set_status t st err n)
     = (if st = ''failed'' then n_retryCount n + 1 else n_retryCount n)"
  by (simp add: set_status_def)

lemma updateNotificationStatus_in_range:
  assumes "\<forall>m \<in> set (notifications s). n_id m = i \<and> st = ''failed'' \<longrightarrow> n_retryCount m < 2147483647"
  shows "updateNotificationStatus e i st err s
     = Some (map_option (set_status (now e) st err)
               (first_row (filter (\<lambda>n. n_id n = i) (notifications s))),
             s\<lparr>notifications := map (\<lambda>n. if n_id n = i then set_status (now e) st err n else n)
                                  (notifications s)\<rparr>)"
proof -
  have "\<not> (st = ''failed''
          \<and> (\<exists>n \<in> set (notifications s). n_id n = i \<and> INT4_MAX < n_retryCount n + 1))"
    using assms by (fastforce simp: INT4_MAX_def)
  then show ?thesis
    by (simp add: updateNotificationStatus_def Let_def
        first_row_update [where key = n_id] set_status_id)
qed

lemma updateNotificationStatus_out_of_range:
  assumes "m \<in> set (notifications s)" and "n_id m = i" and "n_retryCount m = 2147483647"
  shows "updateNotificationStatus e i ''failed'' err s = None"
  using assms by (auto simp: updateNotificationStatus_def INT4_MAX_def)

lemma updateNotificationStatus_rows:
  assumes "updateNotificationStatus e i st err s = Some (r, s')"
  shows "notifications s'
     = map (\<lambda>n. if n_id n = i then set_status (now e) st err n else n) (notifications s)"
  using assms by (auto simp: updateNotificationStatus_def Let_def split: if_splits)

lemma authMiddleware_Inl_Failure:
  "authMiddleware e h = Inl r \<Longrightarrow> \<exists>c m. r = Failure c m"
  by (auto simp: authMiddleware_def split: option.splits if_splits)

lemma authMiddleware_Inr:
  assumes "authMiddleware e h = Inr c"
  shows "\<exists>tok. h = Some (''Bearer '' @ tok) \<and> verifyToken e tok = Some c"
proof -
  from assms obtain hh where h: "h = Some hh" and p: "take 7 hh = ''Bearer ''"
    and v: "verifyToken e (drop 7 hh) = Some c"
    by (auto simp: authMiddleware_def split: option.splits if_splits)
  have "hh = take 7 hh @ drop 7 hh" by simp
  with p have "hh = ''Bearer '' @ drop 7 hh" by metis
  with h v show ?thesis by blast
qed

lemma apply_userUpdate_id: "u_id (apply_userUpdate t data u) = u_id u"
  by (simp add: apply_userUpdate_def)

lemma updateUser_snd_tokens:
  "passwordResetTokens (snd (updateUser e i data s)) = passwordResetTokens s"
  by (simp add: updateUser_def Let_def)

lemma getUser_after_updateUser:
  "getUser i (snd (updateUser e i data s)) = map_option (apply_userUpdate (now e) data) (getUser i s)"
  unfolding updateUser_def getUser_def Let_def snd_conv
  by (simp add: first_row_update [where key = u_id] apply_userUpdate_id)

lemma getUser_markTokenAsUsed: "getUser i (markTokenAsUsed e j s) = getUser i s"
  by (simp add: getUser_def markTokenAsUsed_def)

lemma getPasswordResetToken_markTokenAsUsed:
  "getPasswordResetToken tok (markTokenAsUsed e j s)
     = map_option (\<lambda>t. if t_id t = j then t\<lparr>t_usedAt := Some (now e)\<rparr> else t)
         (getPasswordResetToken tok s)"
  unfolding getPasswordResetToken_def markTokenAsUsed_def
  by (simp add: first_row_filter_map)

lemma getPasswordResetToken_cong:
  "passwordResetTokens s = passwordResetTokens s' \<Longrightarrow>
     getPasswordResetToken tok s = getPasswordResetToken tok s'"
  by (simp add: getPasswordResetToken_def)

lemma reset_used_token:
  assumes "resetPasswordSchema b = Some (tok, pw)"
    and "getPasswordResetToken tok s = Some rt" and "t_usedAt rt \<noteq> None"
  shows "post_auth_reset_password e b s = (Failure 400 ''INVALID_TOKEN'', s)"
  using assms by (simp add: post_auth_reset_password_def)

lemma reset_fresh_token:
  assumes v: "resetPasswordSchema b = Some (tok, pw)"
    and rt: "getPasswordResetToken tok s = Some rt"
    and unused: "t_usedAt rt = None" and live: "now e \<le> t_expiresAt rt"
  shows "post_auth_reset_password e b s
     = (Success 200 ''Password successfully reset'',
        markTokenAsUsed e (t_id rt)
          (snd (updateUser e (t_userId rt)
             \<lparr>uu_fullName = None, uu_phoneNumber = None, uu_facilityName = None,
              uu_district = None, uu_password = Some (hashPassword e pw)\<rparr> s)))"
  using v rt unused live
  by (simp add: post_auth_reset_password_def Let_def split: prod.splits)

lemma MakeDate_next_hour:
  "MakeDate (Day t) (MakeTime (HourFromTime t + 1) (MinFromTime t) (SecFromTime t) (msFromTime t))
     = t + msPerHour"
proof -
  define a where "a = t div 1000"
  define b where "b = a div 60"
  define c where "c = b div 60"
  define d where "d = c div 24"
  define r0 where "r0 = t mod 1000"
  define r1 where "r1 = a mod 60"
  define r2 where "r2 = b mod 60"
  define r3 where "r3 = c mod 24"
  have m: "t div 60000 = b" "t div 3600000 = c" "t div 86400000 = d"
    unfolding a_def b_def c_def d_def by (simp_all add: zdiv_zmult2_eq [symmetric])
  have "t = 1000 * a + r0" unfolding a_def r0_def by simp
  moreover have "a = 60 * b + r1" unfolding b_def r1_def by simp
  moreover have "b = 60 * c + r2" unfolding c_def r2_def by simp
  moreover have "c = 24 * d + r3" unfolding d_def r3_def by simp
  ultimately have "d * 86400000 + ((r3 + 1) * 3600000 + r2 * 60000 + r1 * 1000 + r0)
      = t + 3600000"
    by simp
  then show ?thesis
    unfolding MakeDate_def Day_def MakeTime_def HourFromTime_def MinFromTime_def SecFromTime_def
      msFromTime_def msPerDay_def msPerHour_def msPerMinute_def msPerSecond_def m
      a_def [symmetric] b_def [symmetric] c_def [symmetric] d_def [symmetric]
      r0_def [symmetric] r1_def [symmetric] r2_def [symmetric] r3_def [symmetric]
    by simp
qed

lemma setHours_next_hour:
  "setHours e t (getHours e t + 1) = TimeClip (UTC e (LocalTime e t + msPerHour))"
  by (simp add: setHours_def getHours_def Let_def MakeDate_next_hour)


lemma getUserByEmail_exists: "getUserByEmail em s = Some u \<Longrightarrow> user_exists (u_id u) s"
  unfolding getUserByEmail_def user_exists_def
  by (drule first_row_filter_in) auto


lemma forgot_known_email:
  assumes "zod_email e em" and u: "getUserByEmail em s = Some u"
    and x: "setHours e (now e) (getHours e (now e) + 1) = Some expiresAt"
  shows "post_auth_forgot_password e (Some em) s
     = (Success 200
          \<lparr>fd_message = ''Password reset instructions sent to your email'',
           fd_resetToken = (if NODE_ENV e = Some ''development'' then Some (nanoid e 32) else None)\<rparr>,
        s\<lparr>passwordResetTokens := passwordResetTokens s @
            [\<lparr>t_id = gen_random_uuid e, t_userId = u_id u, t_token = nanoid e 32,
              t_expiresAt = expiresAt, t_usedAt = None, t_createdAt = db_now e\<rparr>]\<rparr>)"
  using assms getUserByEmail_exists [OF u]
  by (simp add: post_auth_forgot_password_def forgotPasswordSchema_def
      createPasswordResetToken_def Let_def)

text \<open>
  Where the offset changes within the hour, \<open>setHours\<close> does not add one hour: in
  London, at 00:30 UTC on the day summer time ends, it adds two, and so does the
  forgot-password route.
\<close>

lemma setHours_at_fall_back:
  "setHours london_env 1761438600000 (getHours london_env 1761438600000 + 1)
     = Some (1761438600000 + 7200000)"
  by (simp add: setHours_next_hour TimeClip_def UTC_def LocalTime_def msPerHour_def
      london_env_def)

lemma forgot_password_at_fall_back:
  "map t_expiresAt (passwordResetTokens
      (snd (post_auth_forgot_password london_env (Some ''worker@example.org'') demo_db)))
     = [2000000, 1761438600000 + 7200000]"
proof -
  have n: "now london_env = 1761438600000" by (simp add: london_env_def)
  have e: "zod_email london_env ''worker@example.org''"
    by (simp add: london_env_def demo_env_def)
  have u: "getUserByEmail ''worker@example.org'' demo_db = Some demo_worker"
    by (simp add: getUserByEmail_def demo_db_def demo_admin_def demo_worker_def)
  have x: "setHours london_env (now london_env) (getHours london_env (now london_env) + 1)
      = Some (1761438600000 + 7200000)"
    unfolding n by (rule setHours_at_fall_back)
  show ?thesis
    unfolding forgot_known_email [OF e u x] snd_conv
    by (simp add: demo_db_def demo_token_def)
qed

lemma register_created:
  assumes v: "registerSchema e b = Some v" and fresh: "getUserByEmail (iu_email v) s = None"
  shows "post_auth_register e b s
     = (Success 201
          (without_password (user_object (fst (createUser e (v\<lparr>iu_password := hashPassword e (iu_password v)\<rparr>) s))),
           generateToken e (fst (createUser e (v\<lparr>iu_password := hashPassword e (iu_password v)\<rparr>) s))),
        snd (createUser e (v\<lparr>iu_password := hashPassword e (iu_password v)\<rparr>) s))"
  using assms by (simp add: post_auth_register_def Let_def split: prod.splits)

lemma createDiagnostic_pending:
  "createDiagnostic e ins s = Some (d, s') \<Longrightarrow>
     d_reviewStatus d = ''pending'' \<and> d_reviewedAt d = None
     \<and> diagnostics s' = diagnostics s @ [d]"
  by (auto simp: createDiagnostic_def Let_def split: if_splits)

lemma insertDiagnosticSchema_IsoString:
  "dd_testDate dd = IsoString v \<Longrightarrow> insertDiagnosticSchema dd = None"
  by (simp add: insertDiagnosticSchema_def split: option.splits)

lemma submit_handler_never_creates:
  "\<exists>c m. submit_handler e u img body s = (Failure c m, s)"
  by (simp add: submit_handler_def Let_def insertDiagnosticSchema_IsoString
      split: option.splits)

lemma post_diagnostics_submit_never_creates:
  "\<exists>c m. post_diagnostics_submit e h img body s = (Failure c m, s)"
proof (cases "authMiddleware e h :: diagnostic response + claims")
  case (Inl r)
  with authMiddleware_Inl_Failure [OF Inl] show ?thesis
    by (auto simp: post_diagnostics_submit_def)
next
  case (Inr u)
  with submit_handler_never_creates [of e u img body s] show ?thesis
    by (simp add: post_diagnostics_submit_def)
qed

lemma without_password_user_object: "without_password (user_object u) = user_public u"
  by (simp add: without_password_def user_object_def user_public_def)

lemma register_response:
  assumes "fst (post_auth_register e b s) = Success n (obj, tok)"
  shows "\<exists>u. users (snd (post_auth_register e b s)) = users s @ [u] \<and> obj = user_public u"
  using assms
  by (auto simp: post_auth_register_def createUser_def Let_def without_password_user_object
      split: option.splits)

lemma login_response:
  assumes "fst (post_auth_login e b s) = Success n (obj, tok)"
  shows "\<exists>em u. lb_email b = Some em \<and> getUserByEmail em s = Some u \<and> obj = user_public u"
  using assms
  by (auto simp: post_auth_login_def loginSchema_def Let_def without_password_user_object
      split: option.splits prod.splits if_splits)

lemma get_profile_response:
  assumes "fst (get_users_profile e h s) = Success n obj"
  shows "\<exists>tok c u. h = Some (''Bearer '' @ tok) \<and> verifyToken e tok = Some c
           \<and> getUser (c_id c) s = Some u \<and> obj = user_public u"
proof (cases "authMiddleware e h :: (string \<times> jval) list response + claims")
  case (Inl r)
  with authMiddleware_Inl_Failure [OF Inl] assms show ?thesis
    by (auto simp: get_users_profile_def)
next
  case (Inr c)
  from authMiddleware_Inr [OF Inr] obtain tok
    where h: "h = Some (''Bearer '' @ tok)" and v: "verifyToken e tok = Some c"
    by blast
  from Inr assms obtain u where "getUser (c_id c) s = Some u" and "obj = user_public u"
    by (auto simp: get_users_profile_def without_password_user_object split: option.splits)
  with h v show ?thesis by blast
qed

lemma getUser_updateUser:
  "updateUser e i data s = (r, s') \<Longrightarrow> getUser i s' = r"
  by (auto simp: updateUser_def getUser_def Let_def)

lemma put_profile_response:
  assumes "fst (put_users_profile e h b s) = Success n obj"
  shows "\<exists>tok c u. h = Some (''Bearer '' @ tok) \<and> verifyToken e tok = Some c
           \<and> getUser (c_id c) (snd (put_users_profile e h b s)) = Some u \<and> obj = user_public u"
proof (cases "authMiddleware e h :: (string \<times> jval) list response + claims")
  case (Inl r)
  with authMiddleware_Inl_Failure [OF Inl] assms show ?thesis
    by (auto simp: put_users_profile_def)
next
  case (Inr c)
  from authMiddleware_Inr [OF Inr] obtain tok
    where h: "h = Some (''Bearer '' @ tok)" and v: "verifyToken e tok = Some c"
    by blast
  from Inr assms obtain data where d: "updateProfileSchema b = Some data"
    by (auto simp: put_users_profile_def split: option.splits)
  obtain r s' where up: "updateUser e (c_id c) data s = (r, s')"
    by (cases "updateUser e (c_id c) data s")
  from Inr d up assms obtain u where r: "r = Some u" and o: "obj = user_public u"
    by (auto simp: put_users_profile_def without_password_user_object split: option.splits)
  from Inr d up r have "snd (put_users_profile e h b s) = s'"
    by (simp add: put_users_profile_def)
  with getUser_updateUser [OF up] r have "getUser (c_id c) (snd (put_users_profile e h b s)) = Some u"
    by simp
  with h v o show ?thesis by blast
qed

lemma notifications_register: "notifications (snd (post_auth_register e b s)) = notifications s"
  by (simp add: post_auth_register_def createUser_def Let_def split: option.splits)

lemma notifications_login: "notifications (snd (post_auth_login e b s)) = notifications s"
  by (simp add: post_auth_login_def updateLastLogin_def Let_def split: option.splits prod.splits)

lemma notifications_forgot:
  "notifications (snd (post_auth_forgot_password e b s)) = notifications s"
  by (auto simp: post_auth_forgot_password_def createPasswordResetToken_def Let_def
      split: option.splits if_splits)

lemma notifications_reset:
  "notifications (snd (post_auth_reset_password e b s)) = notifications s"
  by (simp add: post_auth_reset_password_def updateUser_def markTokenAsUsed_def Let_def
      split: option.splits prod.splits)

lemma notifications_get_profile:
  "notifications (snd (get_users_profile e h s)) = notifications s"
  by (simp add: get_users_profile_def split: sum.splits option.splits)

lemma notifications_put_profile:
  "notifications (snd (put_users_profile e h b s)) = notifications s"
  by (simp add: put_users_profile_def updateUser_def Let_def
      split: sum.splits option.splits prod.splits)

lemma notifications_submit:
  "notifications (snd (post_diagnostics_submit e h f b s)) = notifications s"
  using post_diagnostics_submit_never_creates [of e h f b s] by auto

lemma notifications_review:
  "notifications (snd (put_diagnostic_review e h i b s)) = notifications s"
  by (auto simp: put_diagnostic_review_def review_handler_def updateDiagnosticReview_def Let_def
      split: sum.splits option.splits if_splits)

lemma send_created:
  assumes "fst (post_notifications_send e h b s) = Success c n"
  shows "n_retryCount n = 0 \<and> n_status n = ''pending'' \<and> n_sentAt n = None
         \<and> notifications (snd (post_notifications_send e h b s)) = notifications s @ [n]"
proof (cases "authMiddleware e h :: notification response + claims")
  case (Inl r)
  with authMiddleware_Inl_Failure [OF Inl] assms show ?thesis
    by (auto simp: post_notifications_send_def)
next
  case (Inr u)
  with assms show ?thesis
    by (auto simp: post_notifications_send_def createNotification_def Let_def
        split: option.splits if_splits)
qed

lemma notifications_send:
  "notifications (snd (post_notifications_send e h b s)) = notifications s
   \<or> (\<exists>n. notifications (snd (post_notifications_send e h b s)) = notifications s @ [n])"
proof (cases "fst (post_notifications_send e h b s)")
  case (Success c n)
  from send_created [OF this] show ?thesis by blast
next
  case (Failure c m)
  then have "snd (post_notifications_send e h b s) = s"
    by (auto simp: post_notifications_send_def createNotification_def Let_def
        split: sum.splits option.splits if_splits)
  then show ?thesis by simp
qed

lemma notifications_set_status:
  "notifications (snd (put_notification_status e h i b s)) = notifications s
   \<or> (\<exists>st. notifications (snd (put_notification_status e h i b s))
         = map (\<lambda>n. if n_id n = i then set_status (now e) st (errorMessage b) n else n)
             (notifications s))"
proof (cases "authMiddleware e h :: notification response + claims")
  case (Inl r)
  then show ?thesis by (simp add: put_notification_status_def)
next
  case (Inr u)
  show ?thesis
  proof (cases "status b")
    case None
    with Inr show ?thesis by (simp add: put_notification_status_def)
  next
    case (Some st)
    show ?thesis
    proof (cases "st = []")
      case True
      with Inr Some show ?thesis by (simp add: put_notification_status_def)
    next
      case False
      show ?thesis
      proof (cases "updateNotificationStatus e i st (errorMessage b) s")
        case None
        with Inr Some False show ?thesis by (simp add: put_notification_status_def)
      next
        case (Some a)
        obtain r s' where a: "a = (r, s')" by (cases a)
        with Some have u: "updateNotificationStatus e i st (errorMessage b) s = Some (r, s')"
          by simp
        with Inr \<open>status b = Some st\<close> False
        have "snd (put_notification_status e h i b s) = s'"
          by (cases r) (simp_all add: put_notification_status_def)
        with updateNotificationStatus_rows [OF u] show ?thesis by auto
      qed
    qed
  qed
qed

lemma updateNotificationStatus_retryCount:
  assumes "updateNotificationStatus e i st err s = Some (r, s')"
    and "k < length (notifications s)"
  shows "n_retryCount (notifications s' ! k)
           = (if n_id (notifications s ! k) = i \<and> st = ''failed''
              then n_retryCount (notifications s ! k) + 1
              else n_retryCount (notifications s ! k))"
  using assms(2) by (simp add: updateNotificationStatus_rows [OF assms(1)] retryCount_set_status)

lemma step_retryCount:
  assumes "k < length (notifications s)"
  shows "k < length (notifications (step r s))
         \<and> n_retryCount (notifications s ! k) \<le> n_retryCount (notifications (step r s) ! k)"
proof (cases r)
  case (SendNotification e h b)
  with notifications_send [of e h b s] assms show ?thesis
    by (auto simp: nth_append)
next
  case (SetNotificationStatus e h i b)
  with notifications_set_status [of e h i b s] assms show ?thesis
    by (auto simp: retryCount_set_status)
qed (use assms in \<open>simp_all add: notifications_register notifications_login notifications_forgot
      notifications_reset notifications_get_profile notifications_put_profile
      notifications_submit notifications_review\<close>)

lemma run_retryCount:
  "k < length (notifications s) \<Longrightarrow>
     k < length (notifications (run rs s))
     \<and> n_retryCount (notifications s ! k) \<le> n_retryCount (notifications (run rs s) ! k)"
proof (induction rs arbitrary: s)
  case Nil
  then show ?case by simp
next
  case (Cons r rs)
  from step_retryCount [OF Cons.prems, of r]
  have a: "k < length (notifications (step r s))"
    and b: "n_retryCount (notifications s ! k) \<le> n_retryCount (notifications (step r s) ! k)"
    by simp_all
  from Cons.IH [OF a] b show ?case by simp
qed

section \<open>The review transition\<close>

text \<open>
  C1 (as amended). The review transition has no order on the review statuses: for
  every diagnostic record that exists, whatever its current review status, a review
  call by an admin or super_admin who has a row in \<open>users\<close>, with a non-empty new
  status, is accepted, and the stored record then has the new status, the
  reviewer's id, the time of the call and the notes.
\<close>

theorem review_overwrites_status:
  assumes tok: "verifyToken e tok = Some u"
    and role: "c_role u = ''admin'' \<or> c_role u = ''super_admin''"
    and reviewer: "user_exists (c_id u) s"
    and st: "st \<noteq> []"
    and d: "getDiagnostic i s = Some d"
  shows "\<exists>d' s'. put_diagnostic_review e (Some (''Bearer '' @ tok)) i
                    \<lparr>reviewStatus = Some st, reviewNotes = notes\<rparr> s = (Success 200 d', s')
           \<and> d_reviewStatus d' = st
           \<and> d_reviewedById d' = Some (c_id u)
           \<and> d_reviewedAt d' = Some (now e)
           \<and> d_reviewNotes d' = or_null notes
           \<and> getDiagnostic i s' = Some d'"
proof -
  let ?d' = "set_review (now e) (c_id u) st notes d"
  let ?s' = "s\<lparr>diagnostics := map (\<lambda>r. if d_id r = i then set_review (now e) (c_id u) st notes r
                                         else r) (diagnostics s)\<rparr>"
  have f: "updateDiagnosticReview e i (c_id u) st notes s = Some (Some ?d', ?s')"
    by (simp add: updateDiagnosticReview_stored_reviewer [OF reviewer] d)
  have g: "getDiagnostic i ?s' = Some ?d'"
    by (simp add: getDiagnostic_reviewed d)
  have r: "requireRole [''admin'', ''super_admin''] (Some u) = (Inr u :: diagnostic response + claims)"
    using role by (auto simp: requireRole_def)
  have a: "authMiddleware e (Some (''Bearer '' @ tok)) = (Inr u :: diagnostic response + claims)"
    by (simp add: authMiddleware_def tok)
  have h: "review_handler e u i \<lparr>reviewStatus = Some st, reviewNotes = notes\<rparr> s
             = (Success 200 ?d', ?s')"
    using st by (simp add: review_handler_def f)
  have "put_diagnostic_review e (Some (''Bearer '' @ tok)) i
          \<lparr>reviewStatus = Some st, reviewNotes = notes\<rparr> s = (Success 200 ?d', ?s')"
    by (simp only: put_diagnostic_review_def a r h sum.case)
  moreover have "d_reviewStatus ?d' = st" "d_reviewedById ?d' = Some (c_id u)"
    "d_reviewedAt ?d' = Some (now e)" "d_reviewNotes ?d' = or_null notes"
    by (simp_all add: set_review_def)
  ultimately show ?thesis using g by blast
qed

text \<open>An admin sets the verified record \<open>d1\<close> back to pending.\<close>

theorem review_overwrites_status_witness:
  "verifyToken demo_env ''s3cret/u-admin''
     = Some \<lparr>c_id = ''u-admin'', c_email = ''admin@example.org'', c_role = ''admin''\<rparr>
   \<and> user_exists ''u-admin'' demo_db
   \<and> getDiagnostic ''d1'' demo_db = Some demo_diagnostic
   \<and> d_reviewStatus demo_diagnostic = ''verified''
   \<and> (\<exists>d' s'. put_diagnostic_review demo_env (Some (''Bearer '' @ ''s3cret/u-admin'')) ''d1''
                    \<lparr>reviewStatus = Some ''pending'', reviewNotes = Some ''redo''\<rparr> demo_db
                  = (Success 200 d', s')
           \<and> d_reviewStatus d' = ''pending''
           \<and> d_reviewedById d' = Some ''u-admin''
           \<and> d_reviewedAt d' = Some 1000000
           \<and> d_reviewNotes d' = Some ''redo''
           \<and> getDiagnostic ''d1'' s' = Some d')"
proof -
  have tok: "verifyToken demo_env ''s3cret/u-admin''
     = Some \<lparr>c_id = ''u-admin'', c_email = ''admin@example.org'', c_role = ''admin''\<rparr>"
    by (simp add: verifyToken_def demo_env_def)
  have rv: "user_exists ''u-admin'' demo_db"
    by (simp add: user_exists_def demo_db_def demo_admin_def)
  have d: "getDiagnostic ''d1'' demo_db = Some demo_diagnostic"
    by (simp add: getDiagnostic_def demo_db_def demo_diagnostic_def)
  have v: "d_reviewStatus demo_diagnostic = ''verified''"
    by (simp add: demo_diagnostic_def)
  have n: "now demo_env = 1000000" by (simp add: demo_env_def)
  from review_overwrites_status [OF tok _ _ _ d, of "''pending''" "Some ''redo''"] rv
  show ?thesis using tok d v by (simp add: or_null_def n)
qed

text \<open>
  The claim as the specification states it fails: the only diagnostic of
  \<open>demo_db\<close> is verified, the review call succeeds, and the record is pending.
\<close>

theorem review_regress_counterexample:
  "map d_reviewStatus (diagnostics demo_db) = [''verified'']
   \<and> success_shaped (fst (put_diagnostic_review demo_env (Some ''Bearer s3cret/u-admin'') ''d1''
        \<lparr>reviewStatus = Some ''pending'', reviewNotes = None\<rparr> demo_db))
   \<and> map d_reviewStatus (diagnostics (snd (put_diagnostic_review demo_env
        (Some ''Bearer s3cret/u-admin'') ''d1''
        \<lparr>reviewStatus = Some ''pending'', reviewNotes = None\<rparr> demo_db))) = [''pending'']"
  by (simp add: put_diagnostic_review_def authMiddleware_def verifyToken_def requireRole_def
      review_handler_def updateDiagnosticReview_def set_review_def or_null_def
      user_exists_def diagnostic_exists_def Let_def
      demo_env_def demo_db_def demo_diagnostic_def demo_admin_def demo_worker_def)

section \<open>Status transitions of a notification\<close>

text \<open>
  C2 (as amended). A status transition on a notification whose delivery status is
  \<open>sent\<close> is accepted like on any other: for every notification that exists, whatever
  its current status, an authenticated status update with a non-empty status
  overwrites the status, sets the sent timestamp to the time of the call when the
  new status is \<open>sent\<close> and clears it otherwise, replaces the error detail, and adds
  one to the retry count when the new status is \<open>failed\<close>; this as long as the new
  status is not \<open>failed\<close> or the retry counts of the notifications addressed are
  below 2147483647, the end of the column's range.
\<close>

theorem status_update_overwrites:
  assumes tok: "verifyToken e tok = Some u"
    and st: "st \<noteq> []"
    and n: "first_row (filter (\<lambda>n. n_id n = i) (notifications s)) = Some n"
    and range: "\<forall>m \<in> set (notifications s). n_id m = i \<and> st = ''failed'' \<longrightarrow>
                  n_retryCount m < 2147483647"
  shows "\<exists>n' s'. put_notification_status e (Some (''Bearer '' @ tok)) i
                    \<lparr>status = Some st, errorMessage = err\<rparr> s = (Success 200 n', s')
           \<and> n_status n' = st
           \<and> n_sentAt n' = (if st = ''sent'' then Some (now e) else None)
           \<and> n_errorMessage n' = or_null err
           \<and> n_retryCount n' = (if st = ''failed'' then n_retryCount n + 1 else n_retryCount n)
           \<and> first_row (filter (\<lambda>n. n_id n = i) (notifications s')) = Some n'"
proof -
  let ?n' = "set_status (now e) st err n"
  let ?s' = "s\<lparr>notifications := map (\<lambda>n. if n_id n = i then set_status (now e) st err n else n)
                                    (notifications s)\<rparr>"
  have f: "updateNotificationStatus e i st err s = Some (Some ?n', ?s')"
    by (simp add: updateNotificationStatus_in_range [OF range] n)
  have g: "first_row (filter (\<lambda>n. n_id n = i) (notifications ?s')) = Some ?n'"
    by (simp add: first_row_update [where key = n_id] set_status_id n)
  have a: "authMiddleware e (Some (''Bearer '' @ tok)) = (Inr u :: notification response + claims)"
    by (simp add: authMiddleware_def tok)
  have "put_notification_status e (Some (''Bearer '' @ tok)) i
          \<lparr>status = Some st, errorMessage = err\<rparr> s = (Success 200 ?n', ?s')"
    unfolding put_notification_status_def a using st by (simp add: f)
  moreover have "n_status ?n' = st"
    "n_sentAt ?n' = (if st = ''sent'' then Some (now e) else None)"
    "n_errorMessage ?n' = or_null err"
    "n_retryCount ?n' = (if st = ''failed'' then n_retryCount n + 1 else n_retryCount n)"
    by (simp_all add: set_status_def)
  ultimately show ?thesis using g by blast
qed

text \<open>The sent notification \<open>n1\<close> is marked failed.\<close>

theorem status_update_overwrites_witness:
  "verifyToken demo_env ''s3cret/u-admin''
     = Some \<lparr>c_id = ''u-admin'', c_email = ''admin@example.org'', c_role = ''admin''\<rparr>
   \<and> first_row (filter (\<lambda>n. n_id n = ''n1'') (notifications demo_db)) = Some demo_notification
   \<and> n_status demo_notification = ''sent''
   \<and> n_retryCount demo_notification = 0
   \<and> map n_retryCount (notifications demo_db) = [0]
   \<and> (\<exists>n' s'. put_notification_status demo_env (Some (''Bearer '' @ ''s3cret/u-admin'')) ''n1''
                    \<lparr>status = Some ''failed'', errorMessage = Some ''timeout''\<rparr> demo_db
                  = (Success 200 n', s')
           \<and> n_status n' = ''failed''
           \<and> n_sentAt n' = None
           \<and> n_errorMessage n' = Some ''timeout''
           \<and> n_retryCount n' = 1
           \<and> first_row (filter (\<lambda>n. n_id n = ''n1'') (notifications s')) = Some n')"
proof -
  have tok: "verifyToken demo_env ''s3cret/u-admin''
     = Some \<lparr>c_id = ''u-admin'', c_email = ''admin@example.org'', c_role = ''admin''\<rparr>"
    by (simp add: verifyToken_def demo_env_def)
  have n: "first_row (filter (\<lambda>n. n_id n = ''n1'') (notifications demo_db)) = Some demo_notification"
    by (simp add: demo_db_def demo_notification_def)
  have v: "n_status demo_notification = ''sent''" "n_retryCount demo_notification = 0"
    by (simp_all add: demo_notification_def)
  have all: "map n_retryCount (notifications demo_db) = [0]"
    by (simp add: demo_db_def demo_notification_def)
  have range: "\<forall>m \<in> set (notifications demo_db). n_id m = ''n1'' \<and> ''failed'' = ''failed'' \<longrightarrow>
                  n_retryCount m < 2147483647"
    by (simp add: demo_db_def demo_notification_def)
  from status_update_overwrites [OF tok _ n range, of "Some ''timeout''"]
  show ?thesis using tok n v all by (simp add: or_null_def)
qed

text \<open>
  The claim as the specification states it fails: the update of a sent notification
  succeeds and changes the stored notification.
\<close>

theorem sent_not_terminal_counterexample:
  "map n_status (notifications demo_db) = [''sent'']
   \<and> success_shaped (fst (put_notification_status demo_env (Some ''Bearer s3cret/u-admin'') ''n1''
        \<lparr>status = Some ''failed'', errorMessage = Some ''timeout''\<rparr> demo_db))
   \<and> map n_status (notifications (snd (put_notification_status demo_env
        (Some ''Bearer s3cret/u-admin'') ''n1''
        \<lparr>status = Some ''failed'', errorMessage = Some ''timeout''\<rparr> demo_db))) = [''failed'']
   \<and> notifications (snd (put_notification_status demo_env
        (Some ''Bearer s3cret/u-admin'') ''n1''
        \<lparr>status = Some ''failed'', errorMessage = Some ''timeout''\<rparr> demo_db))
       \<noteq> notifications demo_db"
  by (simp add: put_notification_status_def authMiddleware_def verifyToken_def
      updateNotificationStatus_def set_status_def or_null_def INT4_MAX_def Let_def
      demo_env_def demo_db_def demo_notification_def)

section \<open>Token validation and the active flag\<close>

text \<open>
  C3 (as amended). Validation of a session token looks at the token only, never at
  the identity's active flag: a request whose bearer token the token library
  verifies is authenticated with the token's claims, whatever the stored identity's
  active flag is, and the profile read that follows answers with the stored
  identity, active flag included.
\<close>

theorem auth_ignores_active_flag:
  assumes tok: "verifyToken e tok = Some c"
    and u: "getUser (c_id c) s = Some u"
  shows "authMiddleware e (Some (''Bearer '' @ tok)) = (Inr c :: (string \<times> jval) list response + claims)
       \<and> get_users_profile e (Some (''Bearer '' @ tok)) s
           = (Success 200 (without_password (user_object u)), s)
       \<and> map_of (without_password (user_object u)) ''isActive'' = Some (JBool (u_isActive u))"
proof -
  have a: "authMiddleware e (Some (''Bearer '' @ tok)) = (Inr c :: (string \<times> jval) list response + claims)"
    by (simp add: authMiddleware_def tok)
  have "get_users_profile e (Some (''Bearer '' @ tok)) s
           = (Success 200 (without_password (user_object u)), s)"
    by (simp only: get_users_profile_def a sum.case u option.case)
  moreover have "map_of (without_password (user_object u)) ''isActive'' = Some (JBool (u_isActive u))"
    by (simp add: without_password_def user_object_def)
  ultimately show ?thesis using a by simp
qed

text \<open>The deactivated identity \<open>u-worker\<close> reads its profile.\<close>

theorem auth_ignores_active_flag_witness:
  "verifyToken demo_env ''s3cret/u-worker''
     = Some \<lparr>c_id = ''u-worker'', c_email = ''worker@example.org'', c_role = ''health_worker''\<rparr>
   \<and> getUser ''u-worker'' demo_db = Some demo_worker
   \<and> \<not> u_isActive demo_worker
   \<and> authMiddleware demo_env (Some (''Bearer '' @ ''s3cret/u-worker''))
       = (Inr \<lparr>c_id = ''u-worker'', c_email = ''worker@example.org'', c_role = ''health_worker''\<rparr>
            :: (string \<times> jval) list response + claims)
   \<and> get_users_profile demo_env (Some (''Bearer '' @ ''s3cret/u-worker'')) demo_db
       = (Success 200 (without_password (user_object demo_worker)), demo_db)
   \<and> map_of (without_password (user_object demo_worker)) ''isActive'' = Some (JBool False)"
proof -
  have tok: "verifyToken demo_env ''s3cret/u-worker''
     = Some \<lparr>c_id = ''u-worker'', c_email = ''worker@example.org'', c_role = ''health_worker''\<rparr>"
    by (simp add: verifyToken_def demo_env_def)
  have u: "getUser ''u-worker'' demo_db = Some demo_worker"
    by (simp add: getUser_def demo_db_def demo_worker_def demo_admin_def)
  have i: "\<not> u_isActive demo_worker" by (simp add: demo_worker_def)
  have u': "getUser (c_id \<lparr>c_id = ''u-worker'', c_email = ''worker@example.org'',
      c_role = ''health_worker''\<rparr>) demo_db = Some demo_worker"
    using u by simp
  from auth_ignores_active_flag [OF tok u'] show ?thesis using tok u i by simp
qed

text \<open>
  The claim as the specification states it fails: \<open>u-worker\<close> is not active, its
  token is the one \<open>generateToken\<close> issues, and \<open>authMiddleware\<close> lets it through.
\<close>

theorem deactivated_token_accepted_counterexample:
  "map u_isActive (filter (\<lambda>u. u_id u = ''u-worker'') (users demo_db)) = [False]
   \<and> generateToken demo_env demo_worker = ''s3cret/u-worker''
   \<and> authMiddleware demo_env (Some ''Bearer s3cret/u-worker'')
       = (Inr \<lparr>c_id = ''u-worker'', c_email = ''worker@example.org'', c_role = ''health_worker''\<rparr>
            :: (string \<times> jval) list response + claims)
   \<and> success_shaped (fst (get_users_profile demo_env (Some ''Bearer s3cret/u-worker'') demo_db))"
  by (simp add: generateToken_def get_users_profile_def authMiddleware_def verifyToken_def
      getUser_def demo_env_def demo_db_def demo_worker_def demo_admin_def)

section \<open>Sending a notification\<close>

text \<open>
  C4. A valid urgent SMS request with Twilio unconfigured: \<open>sendSMS\<close> would succeed,
  but the send route never calls it and never updates the status; the route answers
  with the notification as it was created, in status \<open>pending\<close> with no sent
  timestamp and retry count 0.
\<close>

theorem send_stays_pending:
  "\<not> isTwilioConfigured demo_env
   \<and> sr_success (sendSMS demo_env ''+26771234567'' ''Result: POSITIVE'')
   \<and> fst (post_notifications_send demo_env (Some ''Bearer s3cret/u-admin'')
        \<lparr>sb_userId = None, sb_diagnosticId = Some ''d1'', sb_type = Some ''sms'',
         sb_recipient = Some ''+26771234567'', sb_subject = None,
         sb_message = Some ''Result: POSITIVE'', sb_priority = Some ''urgent'',
         sb_errorMessage = None, sb_status = None, sb_retryCount = None\<rparr> demo_db)
     = Success 201
        \<lparr>n_id = ''uuid-1'', n_userId = Some ''u-admin'', n_diagnosticId = Some ''d1'',
         n_type = ''sms'', n_recipient = ''+26771234567'', n_subject = None,
         n_message = ''Result: POSITIVE'', n_status = ''pending'', n_priority = ''urgent'',
         n_sentAt = None, n_errorMessage = None, n_retryCount = 0, n_createdAt = 1000000\<rparr>"
  by (simp add: post_notifications_send_def authMiddleware_def verifyToken_def
      insertNotificationSchema_def createNotification_def isTwilioConfigured_def sendSMS_def
      Let_def user_exists_def diagnostic_exists_def
      demo_env_def demo_db_def demo_admin_def demo_worker_def demo_diagnostic_def)

section \<open>The password reset flow\<close>

text \<open>
  C5. For every reset-password call that passes the request schema (a non-empty
  token string, a new password of at least 8 characters): it fails with
  \<open>INVALID_TOKEN\<close>, the state unchanged, when the token string is unknown or the
  token's used-at is set; it fails with \<open>TOKEN_EXPIRED\<close> when the token is unused
  and now is past its expires-at; otherwise it succeeds, the identity's password is
  the bcrypt hash, at cost 10, of the new password, the token is marked used at now,
  and every later call with the same token string fails with \<open>INVALID_TOKEN\<close>.
\<close>

theorem consumeReset_outcomes:
  assumes valid: "resetPasswordSchema b = Some (tok, pw)"
  shows "(getPasswordResetToken tok s = None \<longrightarrow>
            post_auth_reset_password e b s = (Failure 400 ''INVALID_TOKEN'', s))
       \<and> (\<forall>rt. getPasswordResetToken tok s = Some rt \<longrightarrow>
            (t_usedAt rt \<noteq> None \<longrightarrow>
               post_auth_reset_password e b s = (Failure 400 ''INVALID_TOKEN'', s))
          \<and> (t_usedAt rt = None \<and> now e > t_expiresAt rt \<longrightarrow>
               post_auth_reset_password e b s = (Failure 400 ''TOKEN_EXPIRED'', s))
          \<and> (t_usedAt rt = None \<and> now e \<le> t_expiresAt rt \<longrightarrow>
               (\<exists>s'. post_auth_reset_password e b s = (Success 200 ''Password successfully reset'', s')
                  \<and> getPasswordResetToken tok s' = Some (rt\<lparr>t_usedAt := Some (now e)\<rparr>)
                  \<and> (\<forall>u. getUser (t_userId rt) s = Some u \<longrightarrow>
                        (\<exists>u'. getUser (t_userId rt) s' = Some u'
                           \<and> u_password u' = bcrypt_hash e pw 10))
                  \<and> (\<forall>e' b' pw'. resetPasswordSchema b' = Some (tok, pw') \<longrightarrow>
                        post_auth_reset_password e' b' s' = (Failure 400 ''INVALID_TOKEN'', s')))))"
proof (intro conjI allI impI)
  assume "getPasswordResetToken tok s = None"
  then show "post_auth_reset_password e b s = (Failure 400 ''INVALID_TOKEN'', s)"
    using valid by (simp add: post_auth_reset_password_def)
next
  fix rt assume "getPasswordResetToken tok s = Some rt" "t_usedAt rt \<noteq> None"
  then show "post_auth_reset_password e b s = (Failure 400 ''INVALID_TOKEN'', s)"
    by (rule reset_used_token [OF valid])
next
  fix rt assume "getPasswordResetToken tok s = Some rt" "t_usedAt rt = None \<and> now e > t_expiresAt rt"
  then show "post_auth_reset_password e b s = (Failure 400 ''TOKEN_EXPIRED'', s)"
    using valid by (simp add: post_auth_reset_password_def)
next
  fix rt assume rt: "getPasswordResetToken tok s = Some rt"
    and ok: "t_usedAt rt = None \<and> now e \<le> t_expiresAt rt"
  let ?data = "\<lparr>uu_fullName = None, uu_phoneNumber = None, uu_facilityName = None,
              uu_district = None, uu_password = Some (hashPassword e pw)\<rparr>"
  let ?s1 = "snd (updateUser e (t_userId rt) ?data s)"
  let ?s' = "markTokenAsUsed e (t_id rt) ?s1"
  have r: "post_auth_reset_password e b s = (Success 200 ''Password successfully reset'', ?s')"
    using reset_fresh_token [OF valid rt] ok by simp
  have "getPasswordResetToken tok ?s1 = Some rt"
    using rt getPasswordResetToken_cong [OF updateUser_snd_tokens] by simp
  then have t: "getPasswordResetToken tok ?s' = Some (rt\<lparr>t_usedAt := Some (now e)\<rparr>)"
    by (simp add: getPasswordResetToken_markTokenAsUsed)
  have u: "\<forall>u. getUser (t_userId rt) s = Some u \<longrightarrow>
             (\<exists>u'. getUser (t_userId rt) ?s' = Some u' \<and> u_password u' = bcrypt_hash e pw 10)"
    by (simp add: getUser_markTokenAsUsed getUser_after_updateUser apply_userUpdate_def
        hashPassword_def BCRYPT_ROUNDS_def)
  have again: "\<forall>e' b' pw'. resetPasswordSchema b' = Some (tok, pw') \<longrightarrow>
                 post_auth_reset_password e' b' ?s' = (Failure 400 ''INVALID_TOKEN'', ?s')"
  proof (intro allI impI)
    fix e' b' pw' assume v': "resetPasswordSchema b' = Some (tok, pw')"
    show "post_auth_reset_password e' b' ?s' = (Failure 400 ''INVALID_TOKEN'', ?s')"
      by (rule reset_used_token [OF v' t]) simp
  qed
  show "\<exists>s'. post_auth_reset_password e b s = (Success 200 ''Password successfully reset'', s')
          \<and> getPasswordResetToken tok s' = Some (rt\<lparr>t_usedAt := Some (now e)\<rparr>)
          \<and> (\<forall>u. getUser (t_userId rt) s = Some u \<longrightarrow>
                (\<exists>u'. getUser (t_userId rt) s' = Some u' \<and> u_password u' = bcrypt_hash e pw 10))
          \<and> (\<forall>e' b' pw'. resetPasswordSchema b' = Some (tok, pw') \<longrightarrow>
                post_auth_reset_password e' b' s' = (Failure 400 ''INVALID_TOKEN'', s'))"
    using r t u again by blast
qed

text \<open>
  The token \<open>reset-abc\<close> of \<open>demo_db\<close> is consumed once and refused the second time;
  an unknown token string is refused; after its expiry the token is refused as
  expired.
\<close>

theorem consumeReset_outcomes_witness:
  "resetPasswordSchema \<lparr>token = Some ''reset-abc'', newPassword = Some ''newpassword1''\<rparr>
     = Some (''reset-abc'', ''newpassword1'')
   \<and> getPasswordResetToken ''reset-abc'' demo_db = Some demo_token
   \<and> t_usedAt demo_token = None
   \<and> now demo_env \<le> t_expiresAt demo_token
   \<and> (\<exists>s'. post_auth_reset_password demo_env
               \<lparr>token = Some ''reset-abc'', newPassword = Some ''newpassword1''\<rparr> demo_db
             = (Success 200 ''Password successfully reset'', s')
          \<and> getPasswordResetToken ''reset-abc'' s' = Some (demo_token\<lparr>t_usedAt := Some 1000000\<rparr>)
          \<and> (\<exists>u'. getUser ''u-worker'' s' = Some u' \<and> u_password u' = ''$2b$10$newpassword1'')
          \<and> post_auth_reset_password (demo_env\<lparr>now := 1000001\<rparr>)
               \<lparr>token = Some ''reset-abc'', newPassword = Some ''newpassword1''\<rparr> s'
             = (Failure 400 ''INVALID_TOKEN'', s'))
   \<and> getPasswordResetToken ''no-such-token'' demo_db = None
   \<and> post_auth_reset_password demo_env
        \<lparr>token = Some ''no-such-token'', newPassword = Some ''newpassword1''\<rparr> demo_db
      = (Failure 400 ''INVALID_TOKEN'', demo_db)
   \<and> post_auth_reset_password (demo_env\<lparr>now := 2000001\<rparr>)
        \<lparr>token = Some ''reset-abc'', newPassword = Some ''newpassword1''\<rparr> demo_db
      = (Failure 400 ''TOKEN_EXPIRED'', demo_db)"
proof -
  let ?b = "\<lparr>token = Some ''reset-abc'', newPassword = Some ''newpassword1''\<rparr>"
  let ?b2 = "\<lparr>token = Some ''no-such-token'', newPassword = Some ''newpassword1''\<rparr>"
  have v: "resetPasswordSchema ?b = Some (''reset-abc'', ''newpassword1'')"
    by (simp add: resetPasswordSchema_def)
  have v2: "resetPasswordSchema ?b2 = Some (''no-such-token'', ''newpassword1'')"
    by (simp add: resetPasswordSchema_def)
  have rt: "getPasswordResetToken ''reset-abc'' demo_db = Some demo_token"
    by (simp add: getPasswordResetToken_def demo_db_def demo_token_def)
  have none: "getPasswordResetToken ''no-such-token'' demo_db = None"
    by (simp add: getPasswordResetToken_def demo_db_def demo_token_def)
  have un: "t_usedAt demo_token = None" and ex: "t_expiresAt demo_token = 2000000"
    and uid: "t_userId demo_token = ''u-worker''"
    by (simp_all add: demo_token_def)
  have nw: "now demo_env = 1000000" by (simp add: demo_env_def)
  have gu: "getUser ''u-worker'' demo_db = Some demo_worker"
    by (simp add: getUser_def demo_db_def demo_worker_def demo_admin_def)
  have h: "bcrypt_hash demo_env ''newpassword1'' 10 = ''$2b$10$newpassword1''"
    by (simp add: demo_env_def)
  have "\<exists>s'. post_auth_reset_password demo_env ?b demo_db
             = (Success 200 ''Password successfully reset'', s')
          \<and> getPasswordResetToken ''reset-abc'' s' = Some (demo_token\<lparr>t_usedAt := Some 1000000\<rparr>)
          \<and> (\<forall>u. getUser ''u-worker'' demo_db = Some u \<longrightarrow>
                (\<exists>u'. getUser ''u-worker'' s' = Some u' \<and> u_password u' = ''$2b$10$newpassword1''))
          \<and> (\<forall>e' b' pw'. resetPasswordSchema b' = Some (''reset-abc'', pw') \<longrightarrow>
                post_auth_reset_password e' b' s' = (Failure 400 ''INVALID_TOKEN'', s'))"
    using consumeReset_outcomes [OF v, of demo_db demo_env] rt un ex nw uid h by simp
  then obtain s' where
    r: "post_auth_reset_password demo_env ?b demo_db = (Success 200 ''Password successfully reset'', s')"
    and t: "getPasswordResetToken ''reset-abc'' s' = Some (demo_token\<lparr>t_usedAt := Some 1000000\<rparr>)"
    and u: "\<forall>u. getUser ''u-worker'' demo_db = Some u \<longrightarrow>
              (\<exists>u'. getUser ''u-worker'' s' = Some u' \<and> u_password u' = ''$2b$10$newpassword1'')"
    and again: "\<forall>e' b' pw'. resetPasswordSchema b' = Some (''reset-abc'', pw') \<longrightarrow>
                post_auth_reset_password e' b' s' = (Failure 400 ''INVALID_TOKEN'', s')"
    by blast
  from u gu have u': "\<exists>u'. getUser ''u-worker'' s' = Some u' \<and> u_password u' = ''$2b$10$newpassword1''"
    by simp
  from again v have a: "post_auth_reset_password (demo_env\<lparr>now := 1000001\<rparr>) ?b s'
      = (Failure 400 ''INVALID_TOKEN'', s')"
    by blast
  have first: "\<exists>s'. post_auth_reset_password demo_env ?b demo_db
             = (Success 200 ''Password successfully reset'', s')
          \<and> getPasswordResetToken ''reset-abc'' s' = Some (demo_token\<lparr>t_usedAt := Some 1000000\<rparr>)
          \<and> (\<exists>u'. getUser ''u-worker'' s' = Some u' \<and> u_password u' = ''$2b$10$newpassword1'')
          \<and> post_auth_reset_password (demo_env\<lparr>now := 1000001\<rparr>) ?b s'
             = (Failure 400 ''INVALID_TOKEN'', s')"
    using r t u' a by blast
  have unknown: "post_auth_reset_password demo_env ?b2 demo_db = (Failure 400 ''INVALID_TOKEN'', demo_db)"
    using consumeReset_outcomes [OF v2, of demo_db demo_env] none by simp
  have expired: "post_auth_reset_password (demo_env\<lparr>now := 2000001\<rparr>) ?b demo_db
      = (Failure 400 ''TOKEN_EXPIRED'', demo_db)"
    using consumeReset_outcomes [OF v, of demo_db "demo_env\<lparr>now := 2000001\<rparr>"] rt un ex by simp
  show ?thesis using v rt un ex nw first none unknown expired by simp
qed



section \<open>Retry count of a notification\<close>

text \<open>
  C6. The retry count of a notification is 0 when the notification is created,
  whatever the send request holds; a status update that the database carries out
  adds exactly 1 to the retry count of the notifications it addresses when the new
  status is \<open>failed\<close> and leaves every retry count as it is for any other status;
  the database carries out every status update but a \<open>failed\<close> one on a retry
  count of 2147483647, the end of the column's range; and over any sequence of
  requests to the routes above the retry count of a stored notification never
  decreases.
\<close>

theorem retry_count_bookkeeping:
  "(\<forall>e ins s n s'. createNotification e ins s = Some (n, s') \<longrightarrow> n_retryCount n = 0)
   \<and> (\<forall>e h b s c n. fst (post_notifications_send e h b s) = Success c n \<longrightarrow>
        n_retryCount n = 0
        \<and> notifications (snd (post_notifications_send e h b s)) = notifications s @ [n])
   \<and> (\<forall>e i st err s r s' k.
        updateNotificationStatus e i st err s = Some (r, s') \<and> k < length (notifications s) \<longrightarrow>
        n_retryCount (notifications s' ! k)
          = (if n_id (notifications s ! k) = i \<and> st = ''failed''
             then n_retryCount (notifications s ! k) + 1
             else n_retryCount (notifications s ! k)))
   \<and> (\<forall>e i st err s.
        (\<forall>m \<in> set (notifications s). n_id m = i \<and> st = ''failed'' \<longrightarrow>
            n_retryCount m < 2147483647) \<longrightarrow>
        (\<exists>r s'. updateNotificationStatus e i st err s = Some (r, s')))
   \<and> (\<forall>rs s k. k < length (notifications s) \<longrightarrow>
        k < length (notifications (run rs s))
        \<and> n_retryCount (notifications s ! k) \<le> n_retryCount (notifications (run rs s) ! k))"
proof (intro conjI allI impI)
  fix e ins n and s s' :: db assume "createNotification e ins s = Some (n, s')"
  then show "n_retryCount n = 0"
    by (auto simp: createNotification_def Let_def split: if_splits)
next
  fix e h b s c n assume a: "fst (post_notifications_send e h b s) = Success c n"
  from send_created [OF a] show "n_retryCount n = 0"
    and "notifications (snd (post_notifications_send e h b s)) = notifications s @ [n]"
    by simp_all
next
  fix e i st err r k and s s' :: db
  assume "updateNotificationStatus e i st err s = Some (r, s') \<and> k < length (notifications s)"
  then show "n_retryCount (notifications s' ! k)
          = (if n_id (notifications s ! k) = i \<and> st = ''failed''
             then n_retryCount (notifications s ! k) + 1
             else n_retryCount (notifications s ! k))"
    using updateNotificationStatus_retryCount by blast
next
  fix e i st err and s :: db
  assume "\<forall>m \<in> set (notifications s). n_id m = i \<and> st = ''failed'' \<longrightarrow>
            n_retryCount m < 2147483647"
  from updateNotificationStatus_in_range [OF this]
  show "\<exists>r s'. updateNotificationStatus e i st err s = Some (r, s')"
    by blast
next
  fix rs k and s :: db assume k: "k < length (notifications s)"
  from run_retryCount [OF k] show "k < length (notifications (run rs s))"
    and "n_retryCount (notifications s ! k) \<le> n_retryCount (notifications (run rs s) ! k)"
    by simp_all
qed

text \<open>
  The notification \<open>n1\<close> is marked failed, then sent, then a second notification is
  created by a request that carries a status and a retry count of its own.
\<close>

theorem retry_count_bookkeeping_witness:
  "map n_retryCount (notifications demo_db) = [0]
   \<and> map n_retryCount (notifications (run
        [SetNotificationStatus demo_env (Some ''Bearer s3cret/u-admin'') ''n1''
           \<lparr>status = Some ''failed'', errorMessage = Some ''timeout''\<rparr>,
         SetNotificationStatus demo_env (Some ''Bearer s3cret/u-admin'') ''n1''
           \<lparr>status = Some ''sent'', errorMessage = None\<rparr>,
         SendNotification demo_env (Some ''Bearer s3cret/u-admin'')
           \<lparr>sb_userId = None, sb_diagnosticId = None, sb_type = Some ''email'',
            sb_recipient = Some ''lab@example.org'', sb_subject = Some ''Result'',
            sb_message = Some ''Result: POSITIVE'', sb_priority = None,
            sb_errorMessage = None, sb_status = Some ''sent'', sb_retryCount = Some 7\<rparr>]
        demo_db)) = [1, 0]
   \<and> n_retryCount (notifications demo_db ! 0)
       \<le> n_retryCount (notifications (run
        [SetNotificationStatus demo_env (Some ''Bearer s3cret/u-admin'') ''n1''
           \<lparr>status = Some ''failed'', errorMessage = Some ''timeout''\<rparr>,
         SetNotificationStatus demo_env (Some ''Bearer s3cret/u-admin'') ''n1''
           \<lparr>status = Some ''sent'', errorMessage = None\<rparr>,
         SendNotification demo_env (Some ''Bearer s3cret/u-admin'')
           \<lparr>sb_userId = None, sb_diagnosticId = None, sb_type = Some ''email'',
            sb_recipient = Some ''lab@example.org'', sb_subject = Some ''Result'',
            sb_message = Some ''Result: POSITIVE'', sb_priority = None,
            sb_errorMessage = None, sb_status = Some ''sent'', sb_retryCount = Some 7\<rparr>]
        demo_db) ! 0)
   \<and> (\<exists>r s'. updateNotificationStatus demo_env ''n1'' ''failed'' None demo_db = Some (r, s')
          \<and> n_retryCount (notifications s' ! 0) = 1)
   \<and> (\<exists>r s'. updateNotificationStatus demo_env ''n1'' ''sent'' None demo_db = Some (r, s')
          \<and> n_retryCount (notifications s' ! 0) = 0)
   \<and> (\<exists>n. fst (post_notifications_send demo_env (Some ''Bearer s3cret/u-admin'')
           \<lparr>sb_userId = None, sb_diagnosticId = None, sb_type = Some ''email'',
            sb_recipient = Some ''lab@example.org'', sb_subject = Some ''Result'',
            sb_message = Some ''Result: POSITIVE'', sb_priority = None,
            sb_errorMessage = None, sb_status = Some ''sent'', sb_retryCount = Some 7\<rparr> demo_db)
         = Success 201 n \<and> n_retryCount n = 0 \<and> n_status n = ''pending'')"
proof -
  let ?h = "Some ''Bearer s3cret/u-admin''"
  let ?b = "\<lparr>sb_userId = None, sb_diagnosticId = None, sb_type = Some ''email'',
            sb_recipient = Some ''lab@example.org'', sb_subject = Some ''Result'',
            sb_message = Some ''Result: POSITIVE'', sb_priority = None,
            sb_errorMessage = None, sb_status = Some ''sent'', sb_retryCount = Some 7\<rparr>"
  let ?ops = "[SetNotificationStatus demo_env ?h ''n1''
           \<lparr>status = Some ''failed'', errorMessage = Some ''timeout''\<rparr>,
         SetNotificationStatus demo_env ?h ''n1'' \<lparr>status = Some ''sent'', errorMessage = None\<rparr>,
         SendNotification demo_env ?h ?b]"
  note T = retry_count_bookkeeping
  have len: "0 < length (notifications demo_db)"
    and n0: "notifications demo_db ! 0 = demo_notification"
    and before: "map n_retryCount (notifications demo_db) = [0]"
    by (simp_all add: demo_db_def demo_notification_def)
  have d0: "n_id demo_notification = ''n1''" "n_retryCount demo_notification = 0"
    by (simp_all add: demo_notification_def)
  have after: "map n_retryCount (notifications (run ?ops demo_db)) = [1, 0]"
    by (simp add: put_notification_status_def post_notifications_send_def authMiddleware_def
        verifyToken_def updateNotificationStatus_def set_status_def or_null_def
        insertNotificationSchema_def createNotification_def user_exists_def INT4_MAX_def
        Let_def demo_env_def demo_db_def demo_notification_def demo_admin_def demo_worker_def)
  have "\<exists>n. fst (post_notifications_send demo_env ?h ?b demo_db) = Success 201 n
           \<and> n_status n = ''pending''"
    by (simp add: post_notifications_send_def authMiddleware_def verifyToken_def
        insertNotificationSchema_def createNotification_def user_exists_def Let_def
        demo_env_def demo_db_def demo_admin_def demo_worker_def)
  then obtain n where r: "fst (post_notifications_send demo_env ?h ?b demo_db) = Success 201 n"
    and p: "n_status n = ''pending''"
    by blast
  have created: "n_retryCount n = 0"
    using T [THEN conjunct2, THEN conjunct1, rule_format, OF r] by simp
  have in_range:
    "\<forall>m \<in> set (notifications demo_db). n_id m = ''n1'' \<and> ''failed'' = ''failed'' \<longrightarrow>
        n_retryCount m < 2147483647"
    "\<forall>m \<in> set (notifications demo_db). n_id m = ''n1'' \<and> ''sent'' = ''failed'' \<longrightarrow>
        n_retryCount m < 2147483647"
    by (simp_all add: demo_db_def demo_notification_def)
  note T4 = T [THEN conjunct2, THEN conjunct2, THEN conjunct2, THEN conjunct1]
  have "\<exists>r s'. updateNotificationStatus demo_env ''n1'' ''failed'' None demo_db = Some (r, s')"
    by (rule T4 [THEN spec [where x = demo_env], THEN spec [where x = "''n1''"],
          THEN spec [where x = "''failed''"], THEN spec [where x = None],
          THEN spec [where x = demo_db], THEN mp, OF in_range(1)])
  then obtain r1 s1
    where u1: "updateNotificationStatus demo_env ''n1'' ''failed'' None demo_db = Some (r1, s1)"
    by (elim exE)
  have "\<exists>r s'. updateNotificationStatus demo_env ''n1'' ''sent'' None demo_db = Some (r, s')"
    by (rule T4 [THEN spec [where x = demo_env], THEN spec [where x = "''n1''"],
          THEN spec [where x = "''sent''"], THEN spec [where x = None],
          THEN spec [where x = demo_db], THEN mp, OF in_range(2)])
  then obtain r2 s2
    where u2: "updateNotificationStatus demo_env ''n1'' ''sent'' None demo_db = Some (r2, s2)"
    by (elim exE)
  have failed: "n_retryCount (notifications s1 ! 0) = 1"
    using T [THEN conjunct2, THEN conjunct2, THEN conjunct1, rule_format, OF conjI [OF u1 len]]
      n0 d0 by simp
  have sent: "n_retryCount (notifications s2 ! 0) = 0"
    using T [THEN conjunct2, THEN conjunct2, THEN conjunct1, rule_format, OF conjI [OF u2 len]]
      n0 d0 by simp
  have mono: "n_retryCount (notifications demo_db ! 0)
       \<le> n_retryCount (notifications (run ?ops demo_db) ! 0)"
    using T [THEN conjunct2, THEN conjunct2, THEN conjunct2, THEN conjunct2, rule_format,
        OF len, of ?ops] by simp
  have f: "\<exists>r s'. updateNotificationStatus demo_env ''n1'' ''failed'' None demo_db = Some (r, s')
          \<and> n_retryCount (notifications s' ! 0) = 1"
    using u1 failed by (intro exI [of _ r1] exI [of _ s1] conjI)
  have g: "\<exists>r s'. updateNotificationStatus demo_env ''n1'' ''sent'' None demo_db = Some (r, s')
          \<and> n_retryCount (notifications s' ! 0) = 0"
    using u2 sent by (intro exI [of _ r2] exI [of _ s2] conjI)
  have c: "\<exists>n. fst (post_notifications_send demo_env ?h ?b demo_db) = Success 201 n
         \<and> n_retryCount n = 0 \<and> n_status n = ''pending''"
    using r created p by (intro exI [of _ n] conjI)
  show ?thesis
    by (intro conjI) (rule before after mono f g c)+
qed

text \<open>At the end of the range the database refuses the update and nothing changes.\<close>

lemma status_update_out_of_range:
  "put_notification_status demo_env (Some ''Bearer s3cret/u-admin'') ''n1''
     \<lparr>status = Some ''failed'', errorMessage = None\<rparr>
     (demo_db\<lparr>notifications := [demo_notification\<lparr>n_retryCount := 2147483647\<rparr>]\<rparr>)
   = (Failure 400 ''VALIDATION_ERROR'',
      demo_db\<lparr>notifications := [demo_notification\<lparr>n_retryCount := 2147483647\<rparr>]\<rparr>)"
  by (simp add: put_notification_status_def authMiddleware_def verifyToken_def
      updateNotificationStatus_def INT4_MAX_def demo_env_def demo_notification_def)

section \<open>Submitting a diagnostic\<close>

text \<open>
  C8. The submission of the specification's scenario (an image, patient \<open>p1\<close>,
  result positive, confidence 94), by an authenticated identity, with and without
  a test date: the handler passes the test date on as a string, the schema wants a
  \<open>Date\<close>, and the route answers 400 \<open>VALIDATION_ERROR\<close> and creates no record,
  where the claim has a record created in review status \<open>pending\<close>. The patient and
  the submitter are stored.
\<close>

theorem submit_answers_validation_error:
  "post_diagnostics_submit demo_env (Some ''Bearer s3cret/u-admin'') (Some ''smear.png'')
     (map_of [(''patientId'', ''p1''), (''result'', ''positive''), (''aiConfidenceScore'', ''94'')])
     demo_db
   = (Failure 400 ''VALIDATION_ERROR'', demo_db)
   \<and> post_diagnostics_submit demo_env (Some ''Bearer s3cret/u-admin'') (Some ''smear.png'')
     (map_of [(''patientId'', ''p1''), (''result'', ''positive''), (''aiConfidenceScore'', ''94''),
              (''testDate'', ''2026-08-07T10:30:00.000Z'')])
     demo_db
   = (Failure 400 ''VALIDATION_ERROR'', demo_db)
   \<and> patient_exists ''p1'' demo_db
   \<and> user_exists ''u-admin'' demo_db"
  by (simp add: post_diagnostics_submit_def authMiddleware_def verifyToken_def
      submit_handler_def isS3Configured_def insertDiagnosticSchema_def INT4_MIN_def INT4_MAX_def
      patient_exists_def user_exists_def Let_def
      demo_env_def demo_db_def demo_patient_def demo_admin_def demo_worker_def)

section \<open>Registration\<close>

text \<open>
  C9. Registration takes no authorization header. For every registration request
  with a well-formed, unused email, a password of at least 8 characters, a full
  name of at least 2 and a role that is absent or one of \<open>health_worker\<close>, \<open>admin\<close>,
  \<open>super_admin\<close>, the identity is created with the role the caller chose, or
  \<open>health_worker\<close> when none was given, and the answer holds a token for it.
\<close>

theorem register_takes_callers_role:
  assumes em: "rb_email b = Some em" "zod_email e em"
    and pw: "rb_password b = Some pw" "8 \<le> length pw"
    and fn: "rb_fullName b = Some fn" "2 \<le> length fn"
    and role: "rb_role b = None \<or> rb_role b = Some ''health_worker''
               \<or> rb_role b = Some ''admin'' \<or> rb_role b = Some ''super_admin''"
    and fresh: "getUserByEmail em s = None"
  shows "\<exists>u obj. post_auth_register e b s
                   = (Success 201 (obj, generateToken e u), s\<lparr>users := users s @ [u]\<rparr>)
           \<and> u_email u = em
           \<and> u_role u = (case rb_role b of None \<Rightarrow> ''health_worker'' | Some r \<Rightarrow> r)
           \<and> map_of obj ''role'' = Some (JString (u_role u))"
proof -
  let ?v = "\<lparr>iu_email = em, iu_password = pw, iu_fullName = fn, iu_role = rb_role b,
             iu_phoneNumber = rb_phoneNumber b, iu_facilityName = rb_facilityName b,
             iu_district = rb_district b, iu_isActive = rb_isActive b\<rparr>"
  let ?c = "createUser e (?v\<lparr>iu_password := hashPassword e (iu_password ?v)\<rparr>) s"
  have v: "registerSchema e b = Some ?v"
    using em pw fn role by (auto simp: registerSchema_def)
  have fresh': "getUserByEmail (iu_email ?v) s = None"
    using fresh by simp
  note r = register_created [OF v fresh']
  have s': "snd ?c = s\<lparr>users := users s @ [fst ?c]\<rparr>"
    by (simp add: createUser_def Let_def)
  have "u_email (fst ?c) = em"
    and "u_role (fst ?c) = (case rb_role b of None \<Rightarrow> ''health_worker'' | Some r \<Rightarrow> r)"
    and "map_of (without_password (user_object (fst ?c))) ''role'' = Some (JString (u_role (fst ?c)))"
    by (simp_all add: createUser_def Let_def without_password_def user_object_def)
  then show ?thesis using r s' by metis
qed

text \<open>A caller registers as \<open>super_admin\<close>; the same caller with no role.\<close>

theorem register_takes_callers_role_witness:
  "getUserByEmail ''eve@example.org'' demo_db = None
   \<and> (\<exists>u obj. post_auth_register demo_env
          \<lparr>rb_email = Some ''eve@example.org'', rb_password = Some ''password123'',
           rb_fullName = Some ''Eve'', rb_role = Some ''super_admin'', rb_phoneNumber = None,
           rb_facilityName = None, rb_district = None, rb_isActive = None\<rparr> demo_db
        = (Success 201 (obj, generateToken demo_env u), demo_db\<lparr>users := users demo_db @ [u]\<rparr>)
        \<and> u_email u = ''eve@example.org''
        \<and> u_role u = ''super_admin''
        \<and> map_of obj ''role'' = Some (JString ''super_admin''))
   \<and> (\<exists>u obj. post_auth_register demo_env
          \<lparr>rb_email = Some ''eve@example.org'', rb_password = Some ''password123'',
           rb_fullName = Some ''Eve'', rb_role = None, rb_phoneNumber = None,
           rb_facilityName = None, rb_district = None, rb_isActive = None\<rparr> demo_db
        = (Success 201 (obj, generateToken demo_env u), demo_db\<lparr>users := users demo_db @ [u]\<rparr>)
        \<and> u_email u = ''eve@example.org''
        \<and> u_role u = ''health_worker''
        \<and> map_of obj ''role'' = Some (JString ''health_worker''))"
proof -
  have fresh: "getUserByEmail ''eve@example.org'' demo_db = None"
    by (simp add: getUserByEmail_def demo_db_def demo_admin_def demo_worker_def)
  have em: "zod_email demo_env ''eve@example.org''" by (simp add: demo_env_def)
  let ?b = "\<lambda>r. \<lparr>rb_email = Some ''eve@example.org'', rb_password = Some ''password123'',
           rb_fullName = Some ''Eve'', rb_role = r, rb_phoneNumber = None,
           rb_facilityName = None, rb_district = None, rb_isActive = None\<rparr>"
  have a: "\<exists>u obj. post_auth_register demo_env (?b (Some ''super_admin'')) demo_db
        = (Success 201 (obj, generateToken demo_env u), demo_db\<lparr>users := users demo_db @ [u]\<rparr>)
        \<and> u_email u = ''eve@example.org''
        \<and> u_role u = ''super_admin''
        \<and> map_of obj ''role'' = Some (JString ''super_admin'')"
    using register_takes_callers_role [of "?b (Some ''super_admin'')" "''eve@example.org''" demo_env
        "''password123''" "''Eve''" demo_db] em fresh
    by fastforce
  have b: "\<exists>u obj. post_auth_register demo_env (?b None) demo_db
        = (Success 201 (obj, generateToken demo_env u), demo_db\<lparr>users := users demo_db @ [u]\<rparr>)
        \<and> u_email u = ''eve@example.org''
        \<and> u_role u = ''health_worker''
        \<and> map_of obj ''role'' = Some (JString ''health_worker'')"
    using register_takes_callers_role [of "?b None" "''eve@example.org''" demo_env
        "''password123''" "''Eve''" demo_db] em fresh
    by fastforce
  show ?thesis using fresh a b by simp
qed

section \<open>The password digest in responses\<close>

text \<open>
  C10. For every successful register, login, get-profile and update-profile
  response, the returned user object is the concerned stored row of \<open>users\<close> (the
  row created, the row of the email, the row of the token's identity, the row
  updated) with every column but the password: it has no key \<open>password\<close> and is
  the same whatever the stored digest is.
\<close>

theorem responses_omit_password:
  "(\<forall>e b s n obj tok. fst (post_auth_register e b s) = Success n (obj, tok) \<longrightarrow>
       (\<exists>u. users (snd (post_auth_register e b s)) = users s @ [u] \<and> obj = user_public u))
   \<and> (\<forall>e b s n obj tok. fst (post_auth_login e b s) = Success n (obj, tok) \<longrightarrow>
       (\<exists>em u. lb_email b = Some em \<and> getUserByEmail em s = Some u \<and> obj = user_public u))
   \<and> (\<forall>e h s n obj. fst (get_users_profile e h s) = Success n obj \<longrightarrow>
       (\<exists>tok c u. h = Some (''Bearer '' @ tok) \<and> verifyToken e tok = Some c
          \<and> getUser (c_id c) s = Some u \<and> obj = user_public u))
   \<and> (\<forall>e h b s n obj. fst (put_users_profile e h b s) = Success n obj \<longrightarrow>
       (\<exists>tok c u. h = Some (''Bearer '' @ tok) \<and> verifyToken e tok = Some c
          \<and> getUser (c_id c) (snd (put_users_profile e h b s)) = Some u \<and> obj = user_public u))
   \<and> (\<forall>u. ''password'' \<notin> fst ` set (user_public u))
   \<and> (\<forall>u p. user_public (u\<lparr>u_password := p\<rparr>) = user_public u)"
proof (intro conjI allI impI)
  fix e b s n obj tok assume "fst (post_auth_register e b s) = Success n (obj, tok)"
  from register_response [OF this]
  show "\<exists>u. users (snd (post_auth_register e b s)) = users s @ [u] \<and> obj = user_public u" .
next
  fix e b s n obj tok assume "fst (post_auth_login e b s) = Success n (obj, tok)"
  from login_response [OF this]
  show "\<exists>em u. lb_email b = Some em \<and> getUserByEmail em s = Some u \<and> obj = user_public u" .
next
  fix e h s n obj assume "fst (get_users_profile e h s) = Success n obj"
  from get_profile_response [OF this]
  show "\<exists>tok c u. h = Some (''Bearer '' @ tok) \<and> verifyToken e tok = Some c
          \<and> getUser (c_id c) s = Some u \<and> obj = user_public u" .
next
  fix e h b s n obj assume "fst (put_users_profile e h b s) = Success n obj"
  from put_profile_response [OF this]
  show "\<exists>tok c u. h = Some (''Bearer '' @ tok) \<and> verifyToken e tok = Some c
          \<and> getUser (c_id c) (snd (put_users_profile e h b s)) = Some u \<and> obj = user_public u" .
next
  fix u show "''password'' \<notin> fst ` set (user_public u)"
    by (simp add: user_public_def)
next
  fix u p show "user_public (u\<lparr>u_password := p\<rparr>) = user_public u"
    by (simp add: user_public_def)
qed

text \<open>
  One successful call of each of the four routes: the answer is the public part of
  the stored row, and the stored digest is in none of its values.
\<close>

theorem responses_omit_password_witness:
  "(\<exists>obj tok u. fst (post_auth_register demo_env
        \<lparr>rb_email = Some ''eve@example.org'', rb_password = Some ''password123'',
         rb_fullName = Some ''Eve'', rb_role = None, rb_phoneNumber = None,
         rb_facilityName = None, rb_district = None, rb_isActive = None\<rparr> demo_db)
       = Success 201 (obj, tok) \<and> obj = user_public u
       \<and> u_password u = ''$2b$10$password123'' \<and> JString (u_password u) \<notin> snd ` set obj)
   \<and> fst (post_auth_login demo_env
        \<lparr>lb_email = Some ''worker@example.org'', lb_password = Some ''workerpass''\<rparr> demo_db)
       = Success 200 (user_public demo_worker, ''s3cret/u-worker'')
   \<and> fst (get_users_profile demo_env (Some ''Bearer s3cret/u-admin'') demo_db)
       = Success 200 (user_public demo_admin)
   \<and> fst (put_users_profile demo_env (Some ''Bearer s3cret/u-admin'')
        \<lparr>pb_fullName = Some ''Ada A.'', pb_phoneNumber = None, pb_facilityName = None,
         pb_district = None, pb_password = Some ''overwritten''\<rparr> demo_db)
       = Success 200 (user_public (demo_admin\<lparr>u_fullName := ''Ada A.'', u_updatedAt := 1000000\<rparr>))
   \<and> JString (u_password demo_admin) \<notin> snd ` set (user_public demo_admin)
   \<and> JString (u_password demo_worker) \<notin> snd ` set (user_public demo_worker)
   \<and> ''password'' \<notin> fst ` set (user_public demo_admin)
   \<and> ''password'' \<in> fst ` set (user_object demo_admin)"
proof -
  let ?reg = "post_auth_register demo_env
        \<lparr>rb_email = Some ''eve@example.org'', rb_password = Some ''password123'',
         rb_fullName = Some ''Eve'', rb_role = None, rb_phoneNumber = None,
         rb_facilityName = None, rb_district = None, rb_isActive = None\<rparr> demo_db"
  let ?login = "fst (post_auth_login demo_env
        \<lparr>lb_email = Some ''worker@example.org'', lb_password = Some ''workerpass''\<rparr> demo_db)"
  let ?get = "fst (get_users_profile demo_env (Some ''Bearer s3cret/u-admin'') demo_db)"
  let ?put = "put_users_profile demo_env (Some ''Bearer s3cret/u-admin'')
        \<lparr>pb_fullName = Some ''Ada A.'', pb_phoneNumber = None, pb_facilityName = None,
         pb_district = None, pb_password = Some ''overwritten''\<rparr> demo_db"
  note T = responses_omit_password
  let ?eve = "\<lparr>u_id = ''uuid-1'', u_email = ''eve@example.org'',
      u_password = ''$2b$10$password123'', u_fullName = ''Eve'', u_role = ''health_worker'',
      u_phoneNumber = None, u_facilityName = None, u_district = None, u_isActive = True,
      u_lastLoginAt = None, u_createdAt = 1000000, u_updatedAt = 1000000\<rparr>"
  have reg_users: "users (snd ?reg) = users demo_db @ [?eve]"
    by (simp add: post_auth_register_def registerSchema_def getUserByEmail_def createUser_def
        hashPassword_def BCRYPT_ROUNDS_def Let_def demo_env_def demo_db_def demo_admin_def
        demo_worker_def)
  have "\<exists>obj tok. fst ?reg = Success 201 (obj, tok)"
    by (simp add: post_auth_register_def registerSchema_def getUserByEmail_def createUser_def
        Let_def demo_env_def demo_db_def demo_admin_def demo_worker_def)
  then obtain o1 t1 where r1: "fst ?reg = Success 201 (o1, t1)" by blast
  from T [THEN conjunct1, rule_format, OF r1] reg_users
  have k1: "o1 = user_public ?eve" by simp
  have v1: "JString (u_password ?eve) \<notin> snd ` set (user_public ?eve)"
    by (simp add: user_public_def)
  have reg: "\<exists>obj tok u. fst ?reg = Success 201 (obj, tok) \<and> obj = user_public u
       \<and> u_password u = ''$2b$10$password123'' \<and> JString (u_password u) \<notin> snd ` set obj"
    using r1 k1 v1 by (intro exI [of _ o1] exI [of _ t1] exI [of _ ?eve]) simp
  have "\<exists>obj. ?login = Success 200 (obj, ''s3cret/u-worker'')"
    by (simp add: post_auth_login_def loginSchema_def getUserByEmail_def verifyPassword_def
        generateToken_def Let_def demo_env_def demo_db_def demo_admin_def demo_worker_def)
  then obtain o2 where r2: "?login = Success 200 (o2, ''s3cret/u-worker'')" by blast
  have gw: "getUserByEmail ''worker@example.org'' demo_db = Some demo_worker"
    by (simp add: getUserByEmail_def demo_db_def demo_admin_def demo_worker_def)
  from T [THEN conjunct2, THEN conjunct1, rule_format, OF r2] gw
  have k2: "o2 = user_public demo_worker" by simp
  have "\<exists>obj. ?get = Success 200 obj"
    by (simp add: get_users_profile_def authMiddleware_def verifyToken_def getUser_def
        demo_env_def demo_db_def demo_admin_def demo_worker_def)
  then obtain o3 where r3: "?get = Success 200 o3" by blast
  have va: "\<And>tok c. verifyToken demo_env tok = Some c \<Longrightarrow>
      ''Bearer s3cret/u-admin'' = ''Bearer '' @ tok \<Longrightarrow> c_id c = ''u-admin''"
    by (auto simp: verifyToken_def demo_env_def)
  have ga: "getUser ''u-admin'' demo_db = Some demo_admin"
    by (simp add: getUser_def demo_db_def demo_admin_def)
  from T [THEN conjunct2, THEN conjunct2, THEN conjunct1, rule_format, OF r3]
  obtain tok c u where "''Bearer s3cret/u-admin'' = ''Bearer '' @ tok"
    and "verifyToken demo_env tok = Some c" and "getUser (c_id c) demo_db = Some u"
    and "o3 = user_public u"
    by auto
  with va ga have k3: "o3 = user_public demo_admin" by simp
  have put_s: "getUser ''u-admin'' (snd ?put)
      = Some (demo_admin\<lparr>u_fullName := ''Ada A.'', u_updatedAt := 1000000\<rparr>)"
    by (simp add: put_users_profile_def authMiddleware_def verifyToken_def
        updateProfileSchema_def updateUser_def apply_userUpdate_def getUser_def Let_def
        demo_env_def demo_db_def demo_admin_def demo_worker_def)
  have "\<exists>obj. fst ?put = Success 200 obj"
    by (simp add: put_users_profile_def authMiddleware_def verifyToken_def
        updateProfileSchema_def updateUser_def apply_userUpdate_def Let_def
        demo_env_def demo_db_def demo_admin_def demo_worker_def)
  then obtain o4 where r4: "fst ?put = Success 200 o4" by blast
  from T [THEN conjunct2, THEN conjunct2, THEN conjunct2, THEN conjunct1, rule_format, OF r4]
  obtain tok' c' u' where "''Bearer s3cret/u-admin'' = ''Bearer '' @ tok'"
    and "verifyToken demo_env tok' = Some c'" and "getUser (c_id c') (snd ?put) = Some u'"
    and "o4 = user_public u'"
    by auto
  with va put_s
  have k4: "o4 = user_public (demo_admin\<lparr>u_fullName := ''Ada A.'', u_updatedAt := 1000000\<rparr>)"
    by simp
  have digests: "JString (u_password demo_admin) \<notin> snd ` set (user_public demo_admin)"
    "JString (u_password demo_worker) \<notin> snd ` set (user_public demo_worker)"
    by (simp_all add: user_public_def demo_admin_def demo_worker_def)
  have nokey: "''password'' \<notin> fst ` set (user_public demo_admin)"
    using T [THEN conjunct2, THEN conjunct2, THEN conjunct2, THEN conjunct2, THEN conjunct1]
    by blast
  have stored: "''password'' \<in> fst ` set (user_object demo_admin)"
    by (simp add: user_object_def)
  show ?thesis
    using reg r2 k2 r3 k3 r4 k4 digests nokey stored by simp
qed

end
